theory Spec2Isabelle
  imports Complex_Main
begin

section \<open>Python values shared by the agents\<close>

text \<open>
  Python exceptions that the modelled functions raise or catch.  Every function of the
  repository modelled below wraps its body in \<^verbatim>\<open>try: ... except Exception\<close>, so an
  exception is a value of the model and the handler is a branch of it.
\<close>

datatype py_error = ValueError | IndexError | OverflowError | ZeroDivisionError | JSONDecodeError

section \<open>Exit evaluation (src/agents/position\_manager.py)\<close>

text \<open>
  A row of the \<^verbatim>\<open>trades\<close> table as \<^verbatim>\<open>get_open_positions\<close> returns it.  The columns
  \<^verbatim>\<open>stop_loss\<close>, \<^verbatim>\<open>take_profit\<close> (REAL), \<^verbatim>\<open>timeout_candles\<close> (INTEGER) and
  \<^verbatim>\<open>exit_conditions\<close> (TEXT) are nullable: \<open>None\<close> is SQL NULL, Python's \<^verbatim>\<open>None\<close>.
\<close>

record position =
  pos_id :: string
  pos_symbol :: string
  action :: string
  take_profit :: "real option"
  stop_loss :: "real option"
  timeout_candles :: "int option"
  exit_conditions :: "string option"

text \<open>
  \<^verbatim>\<open>json.loads(position['exit_conditions']) if position['exit_conditions'] else {}\<close>:
  the text is parsed only when it is truthy (neither \<^verbatim>\<open>None\<close> nor the empty string).
  \<open>json_loads\<close> is the library parser, which returns a value or raises; \<open>empty_dict\<close> is
  the literal \<^verbatim>\<open>{}\<close>.
\<close>

definition parse_exit_conditions ::
  "(string \<Rightarrow> py_error + 'j) \<Rightarrow> 'j \<Rightarrow> string option \<Rightarrow> py_error + 'j" where
  "parse_exit_conditions json_loads empty_dict ec =
     (case ec of
        None \<Rightarrow> Inr empty_dict
      | Some s \<Rightarrow> if s = [] then Inr empty_dict else json_loads s)"

text \<open>The two arms of the take-profit block and of the stop-loss block.\<close>

definition take_profit_hit :: "position \<Rightarrow> real \<Rightarrow> bool" where
  "take_profit_hit position current_price =
     (case take_profit position of
        None \<Rightarrow> False
      | Some tp \<Rightarrow>
          tp \<noteq> 0 \<and>
          ((action position = ''LONG'' \<and> current_price \<ge> tp) \<or>
           (action position = ''SHORT'' \<and> current_price \<le> tp)))"

definition stop_loss_hit :: "position \<Rightarrow> real \<Rightarrow> bool" where
  "stop_loss_hit position current_price =
     (case stop_loss position of
        None \<Rightarrow> False
      | Some sl \<Rightarrow>
          sl \<noteq> 0 \<and>
          ((action position = ''LONG'' \<and> current_price \<le> sl) \<or>
           (action position = ''SHORT'' \<and> current_price \<ge> sl)))"

definition timeout_hit :: "position \<Rightarrow> int \<Rightarrow> bool" where
  "timeout_hit position candles_held =
     (case timeout_candles position of
        None \<Rightarrow> False
      | Some tc \<Rightarrow> tc \<noteq> 0 \<and> candles_held \<ge> tc)"

text \<open>
  \<^verbatim>\<open>check_exit_conditions\<close> returns the pair \<^verbatim>\<open>(should_exit, exit_reason)\<close>; the
  handler of the \<^verbatim>\<open>try\<close> returns \<^verbatim>\<open>(False, None)\<close>.
\<close>

definition check_exit_conditions ::
  "(string \<Rightarrow> py_error + 'j) \<Rightarrow> 'j \<Rightarrow> position \<Rightarrow> real \<Rightarrow> int \<Rightarrow> bool \<times> string option" where
  "check_exit_conditions json_loads empty_dict position current_price candles_held =
     (case parse_exit_conditions json_loads empty_dict (exit_conditions position) of
        Inl e \<Rightarrow> (False, None)
      | Inr parsed \<Rightarrow>
          if take_profit_hit position current_price then (True, Some ''take_profit'')
          else if stop_loss_hit position current_price then (True, Some ''stop_loss'')
          else if timeout_hit position candles_held then (True, Some ''timeout'')
          else (False, None))"

section \<open>Floating-point values of numpy\<close>

text \<open>
  The prices and statistics of the strategy are numpy \<^verbatim>\<open>float64\<close> scalars.  Finite values
  are idealised as reals (rounding is not modelled); the three non-finite values are kept,
  because numpy scalar arithmetic does not raise on a zero divisor: it warns and yields
  \<^verbatim>\<open>inf\<close> or \<^verbatim>\<open>nan\<close>.  A zero divisor counts as \<^verbatim>\<open>+0.0\<close>.
\<close>

datatype float64 = Fin real | PInf | NInf | NaN

fun f_neg :: "float64 \<Rightarrow> float64" where
  "f_neg (Fin x) = Fin (- x)"
| "f_neg PInf = NInf"
| "f_neg NInf = PInf"
| "f_neg NaN = NaN"

fun f_add :: "float64 \<Rightarrow> float64 \<Rightarrow> float64" where
  "f_add (Fin x) (Fin y) = Fin (x + y)"
| "f_add NaN b = NaN"
| "f_add a NaN = NaN"
| "f_add PInf NInf = NaN"
| "f_add NInf PInf = NaN"
| "f_add PInf b = PInf"
| "f_add a PInf = PInf"
| "f_add NInf b = NInf"
| "f_add a NInf = NInf"

definition f_sub :: "float64 \<Rightarrow> float64 \<Rightarrow> float64" where
  "f_sub a b = f_add a (f_neg b)"

text \<open>The infinity with the sign of \<open>s\<close>; \<^verbatim>\<open>nan\<close> for \<open>s = 0\<close> (as in \<^verbatim>\<open>inf * 0\<close>, \<^verbatim>\<open>0 / 0\<close>).\<close>

definition signed_inf :: "real \<Rightarrow> float64" where
  "signed_inf s = (if s > 0 then PInf else if s < 0 then NInf else NaN)"

fun f_mul :: "float64 \<Rightarrow> float64 \<Rightarrow> float64" where
  "f_mul (Fin x) (Fin y) = Fin (x * y)"
| "f_mul NaN b = NaN"
| "f_mul a NaN = NaN"
| "f_mul PInf (Fin y) = signed_inf y"
| "f_mul (Fin x) PInf = signed_inf x"
| "f_mul NInf (Fin y) = signed_inf (- y)"
| "f_mul (Fin x) NInf = signed_inf (- x)"
| "f_mul PInf PInf = PInf"
| "f_mul NInf NInf = PInf"
| "f_mul PInf NInf = NInf"
| "f_mul NInf PInf = NInf"

fun f_div :: "float64 \<Rightarrow> float64 \<Rightarrow> float64" where
  "f_div (Fin x) (Fin y) = (if y = 0 then signed_inf x else Fin (x / y))"
| "f_div NaN b = NaN"
| "f_div a NaN = NaN"
| "f_div (Fin x) PInf = Fin 0"
| "f_div (Fin x) NInf = Fin 0"
| "f_div PInf (Fin y) = (if y \<ge> 0 then PInf else NInf)"
| "f_div NInf (Fin y) = (if y \<ge> 0 then NInf else PInf)"
| "f_div a b = NaN"

fun f_abs :: "float64 \<Rightarrow> float64" where
  "f_abs (Fin x) = Fin \<bar>x\<bar>"
| "f_abs PInf = PInf"
| "f_abs NInf = PInf"
| "f_abs NaN = NaN"

fun f_sqrt :: "float64 \<Rightarrow> float64" where
  "f_sqrt (Fin x) = (if x < 0 then NaN else Fin (sqrt x))"
| "f_sqrt PInf = PInf"
| "f_sqrt NInf = NaN"
| "f_sqrt NaN = NaN"

text \<open>Comparisons: every comparison with \<^verbatim>\<open>nan\<close> is false.\<close>

fun f_le :: "float64 \<Rightarrow> float64 \<Rightarrow> bool" where
  "f_le (Fin x) (Fin y) = (x \<le> y)"
| "f_le NaN b = False"
| "f_le a NaN = False"
| "f_le NInf b = True"
| "f_le a PInf = True"
| "f_le a b = False"

fun f_lt :: "float64 \<Rightarrow> float64 \<Rightarrow> bool" where
  "f_lt (Fin x) (Fin y) = (x < y)"
| "f_lt NaN b = False"
| "f_lt a NaN = False"
| "f_lt PInf b = False"
| "f_lt a NInf = False"
| "f_lt a b = True"

text \<open>
  Python's \<^verbatim>\<open>max(0, x)\<close> keeps its first argument unless the second is strictly greater,
  so \<^verbatim>\<open>max(0, nan)\<close> is \<^verbatim>\<open>0\<close>.
\<close>

definition py_max0 :: "float64 \<Rightarrow> float64" where
  "py_max0 x = (if f_lt (Fin 0) x then x else Fin 0)"

text \<open>\<^verbatim>\<open>Series.sum()\<close> skips \<^verbatim>\<open>nan\<close> entries (\<^verbatim>\<open>skipna=True\<close>); the empty sum is \<^verbatim>\<open>0\<close>.\<close>

definition sum_skipna :: "float64 list \<Rightarrow> float64" where
  "sum_skipna xs = foldl f_add (Fin 0) (filter (\<lambda>x. x \<noteq> NaN) xs)"

text \<open>
  \<^verbatim>\<open>int(x)\<close> truncates toward zero; it raises \<^verbatim>\<open>ValueError\<close> on \<^verbatim>\<open>nan\<close> and
  \<^verbatim>\<open>OverflowError\<close> on an infinity.
\<close>

definition trunc :: "real \<Rightarrow> int" where
  "trunc x = (if x \<ge> 0 then \<lfloor>x\<rfloor> else \<lceil>x\<rceil>)"

fun py_int :: "float64 \<Rightarrow> py_error + int" where
  "py_int (Fin x) = Inr (trunc x)"
| "py_int NaN = Inl ValueError"
| "py_int PInf = Inl OverflowError"
| "py_int NInf = Inl OverflowError"

section \<open>Volume profile (src/strategies/volume\_profile\_strategy.py)\<close>

subsection \<open>Data model\<close>

text \<open>One OHLCV bar; a \<^verbatim>\<open>DataFrame\<close> of candles is the list of its rows, oldest first.\<close>

record candle =
  opn :: real
  high :: real
  low :: real
  close :: real
  volume :: real

type_synonym dataframe = "candle list"

text \<open>The dictionary returned by \<^verbatim>\<open>calculate_volume_profile\<close>.\<close>

record profile =
  poc :: float64
  value_area_high :: float64
  value_area_low :: float64
  sigma_2_high :: float64
  sigma_2_low :: float64
  mean_price :: float64
  std_price :: float64
  developed :: bool
  development_score :: float64
  lookback :: int
  num_candles :: nat

text \<open>
  The statistics that \<^verbatim>\<open>_check_development\<close> obtains from pandas and scipy are inputs of
  the model: each returns a \<^verbatim>\<open>float64\<close> (possibly non-finite) or raises.
  \<^item> \<open>recent_poc\<close>: the midpoint of the fullest of the 20 bins that
    \<^verbatim>\<open>pd.cut(recent_data['close'], bins=20)\<close> makes of the last ten closes;
  \<^item> \<open>skew\<close>: \<^verbatim>\<open>scipy.stats.skew\<close> of the closes;
  \<^item> \<open>kurtosis\<close>: \<^verbatim>\<open>scipy.stats.kurtosis(..., fisher=False)\<close> of the closes.
\<close>

record stats_lib =
  recent_poc :: "candle list \<Rightarrow> py_error + float64"
  skew :: "real list \<Rightarrow> py_error + float64"
  kurtosis :: "real list \<Rightarrow> py_error + float64"

subsection \<open>pandas and numpy operations used by the estimator\<close>

text \<open>\<^verbatim>\<open>df.tail(n)\<close>: the last \<open>n\<close> rows; for negative \<open>n\<close> all rows but the first \<open>-n\<close>.\<close>

definition tail_df :: "int \<Rightarrow> 'a list \<Rightarrow> 'a list" where
  "tail_df n xs =
     (if n = 0 then []
      else if n > 0 then drop (length xs - nat n) xs
      else drop (nat (- n)) xs)"

text \<open>\<^verbatim>\<open>np.linspace(start, stop, num)\<close> for \<open>num \<ge> 1\<close>.\<close>

definition linspace :: "real \<Rightarrow> real \<Rightarrow> nat \<Rightarrow> real list" where
  "linspace start stop num =
     (if num = 1 then [start]
      else map (\<lambda>i. start + real i * ((stop - start) / real (num - 1))) [0..<num])"

text \<open>
  \<^verbatim>\<open>pd.cut(x, bins=edges, labels=False, include_lowest=True)\<close> with right-closed bins:
  the label of \<open>x\<close> is the number of edges strictly below it, less one; the lowest edge
  itself belongs to bin 0; a value outside the edges gets no label (\<^verbatim>\<open>nan\<close>).  Decreasing
  edges raise, and so do repeated edges unless there are exactly two edges.
\<close>

definition cut_label :: "real list \<Rightarrow> real \<Rightarrow> nat option" where
  "cut_label edges x =
     (let ids = (case edges of
                   [] \<Rightarrow> 0
                 | e0 # es \<Rightarrow> if x = e0 then 1 else length (filter (\<lambda>e. e < x) edges))
      in if ids = 0 \<or> ids = length edges then None else Some (ids - 1))"

definition cut_bins :: "real list \<Rightarrow> real list \<Rightarrow> py_error + nat option list" where
  "cut_bins xs edges =
     (if \<not> sorted edges then Inl ValueError
      else if \<not> distinct edges \<and> length edges \<noteq> 2 then Inl ValueError
      else Inr (map (cut_label edges) xs))"

text \<open>
  \<^verbatim>\<open>data.groupby('price_bin')['volume'].sum()\<close>: one row per label that occurs, in
  ascending order of the label; rows without a label are dropped.
\<close>

definition groupby_sum :: "(nat option \<times> real) list \<Rightarrow> (nat \<times> real) list" where
  "groupby_sum rows =
     map (\<lambda>k. (k, sum_list (map snd (filter (\<lambda>r. fst r = Some k) rows))))
         (sort (remdups (List.map_filter fst rows)))"

text \<open>\<^verbatim>\<open>Series.idxmax()\<close>: the label of the first maximum; raises on an empty series.\<close>

fun idxmax :: "(nat \<times> real) list \<Rightarrow> py_error + nat" where
  "idxmax [] = Inl ValueError"
| "idxmax (r # rs) =
     Inr (fst (foldl (\<lambda>best row. if snd row > snd best then row else best) r rs))"

subsection \<open>Development score\<close>

definition poc_drift_score :: "float64 \<Rightarrow> float64" where
  "poc_drift_score poc_drift =
     (if f_lt poc_drift (Fin 0.3) then Fin 100
      else py_max0 (f_sub (Fin 100) (f_mul (f_sub poc_drift (Fin 0.3)) (Fin 200))))"

definition skewness_score :: "float64 \<Rightarrow> float64" where
  "skewness_score skewness =
     (if f_le (f_abs skewness) (Fin 0.25) then Fin 100
      else py_max0 (f_sub (Fin 100) (f_mul (f_sub (f_abs skewness) (Fin 0.25)) (Fin 200))))"

definition kurtosis_score :: "float64 \<Rightarrow> float64" where
  "kurtosis_score kurt =
     (if f_le (Fin 2.5) kurt \<and> f_le kurt (Fin 3.5) then Fin 100
      else py_max0 (f_sub (Fin 100) (f_mul (f_abs (f_sub kurt (Fin 3.0))) (Fin 50))))"

definition va_score :: "float64 \<Rightarrow> float64" where
  "va_score va_coverage =
     (if f_le (Fin 65) va_coverage then Fin 100
      else f_mul va_coverage (Fin (100 / 65)))"

text \<open>
  \<^verbatim>\<open>_check_development\<close>.  The four sub-scores are appended to \<^verbatim>\<open>scores\<close> in order;
  \<^verbatim>\<open>sum(scores)\<close> adds them to \<^verbatim>\<open>0\<close> from the left.  Any exception leaves through the
  handler, which returns \<^verbatim>\<open>(False, 0)\<close>.
\<close>

definition check_development ::
  "stats_lib \<Rightarrow> candle list \<Rightarrow> float64 \<Rightarrow> float64 \<Rightarrow> float64 \<Rightarrow> bool \<times> float64" where
  "check_development lib data poc_v mean std =
     (case (if length data \<ge> 10
            then (case recent_poc lib (tail_df 10 data) of
                    Inl e \<Rightarrow> Inl e
                  | Inr rp \<Rightarrow>
                      Inr (poc_drift_score
                             (f_mul (f_div (f_abs (f_sub rp poc_v)) poc_v) (Fin 100))))
            else Inr (Fin 50)) of
        Inl e \<Rightarrow> (False, Fin 0)
      | Inr s1 \<Rightarrow>
         (case skew lib (map close data) of
            Inl e \<Rightarrow> (False, Fin 0)
          | Inr skewness \<Rightarrow>
             (case kurtosis lib (map close data) of
                Inl e \<Rightarrow> (False, Fin 0)
              | Inr kurt \<Rightarrow>
                 (let va_high = f_add mean std;
                      va_low = f_sub mean std;
                      within_va = length (filter (\<lambda>c. f_le va_low (Fin (close c)) \<and>
                                                        f_le (Fin (close c)) va_high) data);
                      va_coverage = f_mul (f_div (Fin (real within_va))
                                                 (Fin (real (length data)))) (Fin 100);
                      scores = [s1, skewness_score skewness, kurtosis_score kurt,
                                va_score va_coverage];
                      quality_score = f_div (foldl f_add (Fin 0) scores)
                                            (Fin (real (length scores)))
                  in (f_le (Fin 70) quality_score, quality_score)))))"

text \<open>
  The two quantities that \<^verbatim>\<open>_check_development\<close> computes itself before it scores them:
  \<^verbatim>\<open>poc_drift = abs(recent_poc - poc) / poc * 100\<close>, and \<^verbatim>\<open>va_coverage\<close>, the
  percentage of closes inside \<open>[mean - std, mean + std]\<close>.
\<close>

definition poc_drift :: "float64 \<Rightarrow> float64 \<Rightarrow> float64" where
  "poc_drift recent poc_v = f_mul (f_div (f_abs (f_sub recent poc_v)) poc_v) (Fin 100)"

definition va_coverage :: "candle list \<Rightarrow> float64 \<Rightarrow> float64 \<Rightarrow> float64" where
  "va_coverage data mean std =
     (let va_high = f_add mean std;
          va_low = f_sub mean std;
          within_va = length (filter (\<lambda>c. f_le va_low (Fin (close c)) \<and>
                                            f_le (Fin (close c)) va_high) data)
      in f_mul (f_div (Fin (real within_va)) (Fin (real (length data)))) (Fin 100))"

subsection \<open>Profile estimation\<close>

text \<open>
  The body of the \<^verbatim>\<open>try\<close> of \<^verbatim>\<open>calculate_volume_profile\<close> on the slice \<open>data\<close>.  The
  \<^verbatim>\<open>vwap\<close> column is written and never read, and a division of two Series does not
  raise, so it is left out.  On an empty slice \<^verbatim>\<open>idxmax\<close> has nothing to pick from and
  raises.  The divisions by \<^verbatim>\<open>num_bins\<close> and by \<^verbatim>\<open>total_volume\<close> are numpy scalar
  divisions with no test of the divisor.
\<close>

definition profile_body :: "stats_lib \<Rightarrow> candle list \<Rightarrow> int \<Rightarrow> py_error + profile" where
  "profile_body lib data lookback_v =
     (case data of
        [] \<Rightarrow> Inl ValueError
      | c0 # rest \<Rightarrow>
         (let num_bins = min 50 (length data div 2);
              hi = fold max (map high rest) (high c0);
              lo = fold min (map low rest) (low c0);
              price_range = hi - lo;
              bin_size = f_div (Fin price_range) (Fin (real num_bins));
              bins = linspace lo hi (num_bins + 1)
          in case cut_bins (map close data) bins of
               Inl e \<Rightarrow> Inl e
             | Inr price_bin \<Rightarrow>
                (case idxmax (groupby_sum (zip price_bin (map volume data))) of
                   Inl e \<Rightarrow> Inl e
                 | Inr poc_bin \<Rightarrow>
                    (let poc_price = f_add (Fin (bins ! poc_bin)) (f_div bin_size (Fin 2));
                         total_volume = sum_list (map volume data);
                         weighted_prices = map (\<lambda>c. close c * volume c) data;
                         mean_price_v = f_div (Fin (sum_list weighted_prices)) (Fin total_volume);
                         variance =
                           f_div (sum_skipna
                                    (map (\<lambda>c. f_mul (f_mul (f_sub (Fin (close c)) mean_price_v)
                                                            (f_sub (Fin (close c)) mean_price_v))
                                                     (Fin (volume c))) data))
                                 (Fin total_volume);
                         std_price_v = f_sqrt variance;
                         dev = check_development lib data poc_price mean_price_v std_price_v
                     in Inr \<lparr> poc = poc_price,
                              value_area_high = f_add mean_price_v std_price_v,
                              value_area_low = f_sub mean_price_v std_price_v,
                              sigma_2_high = f_add mean_price_v (f_mul (Fin 2) std_price_v),
                              sigma_2_low = f_sub mean_price_v (f_mul (Fin 2) std_price_v),
                              mean_price = mean_price_v,
                              std_price = std_price_v,
                              developed = fst dev,
                              development_score = snd dev,
                              lookback = lookback_v,
                              num_candles = length data \<rparr>))))"

text \<open>
  \<^verbatim>\<open>calculate_volume_profile\<close>: \<open>None\<close> when the frame is shorter than the lookback and
  when the body raises.
\<close>

definition calculate_volume_profile :: "stats_lib \<Rightarrow> dataframe \<Rightarrow> int \<Rightarrow> profile option" where
  "calculate_volume_profile lib df lookback_v =
     (if int (length df) < lookback_v then None
      else case profile_body lib (tail_df lookback_v df) lookback_v of
             Inl e \<Rightarrow> None
           | Inr p \<Rightarrow> Some p)"

subsection \<open>Strategy object and signals\<close>

text \<open>
  The fields of a \<^verbatim>\<open>VolumeProfileStrategy\<close> that the methods read or write
  (\<^verbatim>\<open>sigma_levels\<close> is stored and never read).
\<close>

record strategy =
  symbol :: string
  timeframe :: string
  lookback_min :: int
  lookback_max :: int
  tp_fraction :: real
  atr_min :: real
  atr_max :: real
  cfg_timeout_candles :: int
  optimal_lookback :: int

datatype direction = LONG | SHORT | NEUTRAL

text \<open>The entry level: \<open>Sigma1\<close> is the string \<^verbatim>\<open>"1\<sigma>"\<close>, \<open>Sigma2\<close> is \<^verbatim>\<open>"2\<sigma>"\<close>.\<close>

datatype entry_level = Sigma1 | Sigma2

text \<open>
  The \<^verbatim>\<open>reasoning\<close> text.  A neutral signal carries the reason it is given; an entry
  signal carries an f-string, kept here as the values it interpolates (entry level, wick
  price, close, POC, score, ATR) without their formatting.
\<close>

datatype reasoning = Reason string | Wicked entry_level real real float64 float64 float64

record metadata =
  entry_level :: entry_level
  meta_poc :: float64
  meta_value_area_high :: float64
  meta_value_area_low :: float64
  meta_lookback :: int
  meta_timeout_candles :: int

text \<open>
  The signal dictionary.  The keys \<^verbatim>\<open>atr_percent\<close> and \<^verbatim>\<open>risk_reward\<close> are absent from
  a neutral signal, whose \<^verbatim>\<open>metadata\<close> is the empty dictionary.
\<close>

record signal =
  sig_symbol :: string
  direction :: direction
  confidence :: float64
  entry_price :: float64
  target_price :: float64
  sig_stop_loss :: float64
  leverage :: int
  sig_timeframe :: string
  volume_profile :: "profile option"
  atr_percent :: "float64 option"
  risk_reward :: "float64 option"
  reasoning :: reasoning
  metadata :: "metadata option"

definition neutral_signal :: "strategy \<Rightarrow> string \<Rightarrow> signal" where
  "neutral_signal self reason =
     \<lparr> sig_symbol = symbol self,
       direction = NEUTRAL,
       confidence = Fin 0,
       entry_price = Fin 0,
       target_price = Fin 0,
       sig_stop_loss = Fin 0,
       leverage = 1,
       sig_timeframe = timeframe self,
       volume_profile = None,
       atr_percent = None,
       risk_reward = None,
       reasoning = Reason reason,
       metadata = None \<rparr>"

text \<open>The dictionary that both entry branches of \<^verbatim>\<open>_check_entry_conditions\<close> return.\<close>

definition entry_signal ::
  "strategy \<Rightarrow> direction \<Rightarrow> profile \<Rightarrow> float64 \<Rightarrow> real \<Rightarrow> real \<Rightarrow> float64 \<Rightarrow> float64 \<Rightarrow>
   int \<Rightarrow> float64 \<Rightarrow> entry_level \<Rightarrow> signal" where
  "entry_signal self dir prof atr current_price wick target stop lev rr level =
     \<lparr> sig_symbol = symbol self,
       direction = dir,
       confidence = development_score prof,
       entry_price = Fin current_price,
       target_price = target,
       sig_stop_loss = stop,
       leverage = lev,
       sig_timeframe = timeframe self,
       volume_profile = Some prof,
       atr_percent = Some atr,
       risk_reward = Some rr,
       reasoning = Wicked level wick current_price (poc prof) (development_score prof) atr,
       metadata = Some \<lparr> entry_level = level,
                          meta_poc = poc prof,
                          meta_value_area_high = value_area_high prof,
                          meta_value_area_low = value_area_low prof,
                          meta_lookback = lookback prof,
                          meta_timeout_candles = cfg_timeout_candles self \<rparr> \<rparr>"

subsection \<open>Entry conditions\<close>

text \<open>
  \<^verbatim>\<open>_check_entry_conditions\<close>.  The candle values are finite; the profile values are
  whatever the estimator produced.  \<^verbatim>\<open>int(risk_reward * 3)\<close> raises on a non-finite
  argument, and the method has no handler of its own.
\<close>

definition check_entry_conditions ::
  "strategy \<Rightarrow> real \<Rightarrow> real \<Rightarrow> real \<Rightarrow> real \<Rightarrow> profile \<Rightarrow> float64 \<Rightarrow> py_error + signal" where
  "check_entry_conditions self current_price current_low current_high prev_close prof atr =
     (let poc_v = poc prof;
          va_high = value_area_high prof;
          va_low = value_area_low prof;
          s2_high = sigma_2_high prof;
          s2_low = sigma_2_low prof
      in
      if f_le (Fin current_low) va_low \<and>
         f_le va_low (Fin current_price) \<and> f_le (Fin current_price) va_high
      then
        (let level = (if f_le (Fin current_low) s2_low then Sigma2 else Sigma1);
             stop = (if f_le (Fin current_low) s2_low
                     then f_sub s2_low (f_mul s2_low (Fin 0.0025))
                     else f_sub s2_low (f_mul va_low (Fin 0.0015)));
             distance_to_poc = f_abs (f_sub poc_v (Fin current_price));
             target = f_add (Fin current_price) (f_mul distance_to_poc (Fin (tp_fraction self)));
             risk = f_sub (Fin current_price) stop;
             reward = f_sub target (Fin current_price);
             rr = (if f_lt (Fin 0) risk then f_div reward risk else Fin 0)
         in case py_int (f_mul rr (Fin 3)) of
              Inl e \<Rightarrow> Inl e
            | Inr n \<Rightarrow>
                Inr (entry_signal self LONG prof atr current_price current_low target stop
                       (min 20 (max 2 n)) rr level))
      else if f_le va_high (Fin current_high) \<and>
              f_le va_low (Fin current_price) \<and> f_le (Fin current_price) va_high
      then
        (let level = (if f_le s2_high (Fin current_high) then Sigma2 else Sigma1);
             stop = (if f_le s2_high (Fin current_high)
                     then f_add s2_high (f_mul s2_high (Fin 0.0025))
                     else f_add s2_high (f_mul va_high (Fin 0.0015)));
             distance_to_poc = f_abs (f_sub (Fin current_price) poc_v);
             target = f_sub (Fin current_price) (f_mul distance_to_poc (Fin (tp_fraction self)));
             risk = f_sub stop (Fin current_price);
             reward = f_sub (Fin current_price) target;
             rr = (if f_lt (Fin 0) risk then f_div reward risk else Fin 0)
         in case py_int (f_mul rr (Fin 3)) of
              Inl e \<Rightarrow> Inl e
            | Inr n \<Rightarrow>
                Inr (entry_signal self SHORT prof atr current_price current_high target stop
                       (min 20 (max 2 n)) rr level))
      else Inr (neutral_signal self ''Waiting for mean reversion setup''))"

subsection \<open>Volatility gate\<close>

text \<open>
  The true range of each candle: the first row has no previous close, and the row-wise
  \<^verbatim>\<open>max\<close> skips the missing values, leaving \<^verbatim>\<open>high - low\<close>.
\<close>

fun tr_from :: "real \<Rightarrow> candle list \<Rightarrow> real list" where
  "tr_from prev [] = []"
| "tr_from prev (c # cs) =
     max (max (high c - low c) \<bar>high c - prev\<bar>) \<bar>low c - prev\<bar> # tr_from (close c) cs"

definition true_range :: "dataframe \<Rightarrow> real list" where
  "true_range df = (case df of [] \<Rightarrow> [] | c # cs \<Rightarrow> (high c - low c) # tr_from (close c) cs)"

text \<open>
  \<^verbatim>\<open>calculate_atr\<close> with its default period of 14.  The rolling mean of the last row is
  \<^verbatim>\<open>nan\<close> while fewer than 14 rows exist; \<^verbatim>\<open>iloc[-1]\<close> on an empty frame raises and the
  handler returns \<^verbatim>\<open>0\<close>.
\<close>

definition calculate_atr :: "dataframe \<Rightarrow> float64" where
  "calculate_atr df =
     (case rev df of
        [] \<Rightarrow> Fin 0
      | last_row # before \<Rightarrow>
         (let tr = true_range df;
              atr = (if length tr < 14 then NaN else Fin (sum_list (tail_df 14 tr) / 14));
              current_price = close last_row
          in f_mul (f_div atr (Fin current_price)) (Fin 100)))"

text \<open>\<^verbatim>\<open>self.atr_min <= atr_percent <= self.atr_max\<close>.\<close>

definition atr_in_window :: "strategy \<Rightarrow> float64 \<Rightarrow> bool" where
  "atr_in_window self atr = (f_le (Fin (atr_min self)) atr \<and> f_le atr (Fin (atr_max self)))"

subsection \<open>Lookback search and signal generation\<close>

text \<open>\<^verbatim>\<open>range(start, stop, step)\<close> for a positive step.\<close>

definition py_range :: "int \<Rightarrow> int \<Rightarrow> int \<Rightarrow> int list" where
  "py_range start stop step =
     map (\<lambda>k. start + int k * step) [0 ..< nat ((stop - start + step - 1) div step)]"

text \<open>
  The \<^verbatim>\<open>for lookback in range(...)\<close> loop of \<^verbatim>\<open>generate_signals\<close>.  Its state is
  \<^verbatim>\<open>best_profile\<close>, \<^verbatim>\<open>best_score\<close>, \<^verbatim>\<open>self.optimal_lookback\<close> and, for the record, the
  lookbacks for which \<^verbatim>\<open>calculate_volume_profile\<close> has been called so far.
  \<open>lookback_step\<close> is the body of the loop for one lookback.
\<close>

type_synonym search_state = "profile option \<times> float64 \<times> int \<times> int list"

definition lookback_step :: "stats_lib \<Rightarrow> dataframe \<Rightarrow> int \<Rightarrow> search_state \<Rightarrow> search_state" where
  "lookback_step lib df lb st =
     (case st of (best_profile, best_score, opt, calls) \<Rightarrow>
        (case calculate_volume_profile lib df lb of
           None \<Rightarrow> (best_profile, best_score, opt, calls @ [lb])
         | Some p \<Rightarrow>
             if developed p \<and> f_lt best_score (development_score p)
             then (Some p, development_score p, lb, calls @ [lb])
             else (best_profile, best_score, opt, calls @ [lb])))"

fun lookback_loop :: "stats_lib \<Rightarrow> dataframe \<Rightarrow> int list \<Rightarrow> search_state \<Rightarrow> search_state" where
  "lookback_loop lib df [] st = st"
| "lookback_loop lib df (lb # lbs) st = lookback_loop lib df lbs (lookback_step lib df lb st)"

text \<open>
  \<^verbatim>\<open>generate_signals\<close>.  \<open>fetched\<close> is what \<^verbatim>\<open>hl.get_ohlcv_data\<close> gave: an exception,
  \<^verbatim>\<open>None\<close> or a frame.  The result is the returned signal (\<open>None\<close> for \<^verbatim>\<open>return None\<close>),
  the strategy object with \<^verbatim>\<open>optimal_lookback\<close> as the loop left it, and the lookbacks for
  which a volume profile was computed, in order.
\<close>

definition generate_signals ::
  "stats_lib \<Rightarrow> strategy \<Rightarrow> py_error + dataframe option \<Rightarrow> signal option \<times> strategy \<times> int list" where
  "generate_signals lib self fetched =
     (case fetched of
        Inl e \<Rightarrow> (None, self, [])
      | Inr None \<Rightarrow> (None, self, [])
      | Inr (Some df) \<Rightarrow>
         if int (length df) < lookback_max self then (None, self, [])
         else
          (let atr = calculate_atr df
           in if \<not> atr_in_window self atr
              then (Some (neutral_signal self ''ATR outside optimal range''), self, [])
              else
               (case lookback_loop lib df
                       (py_range (lookback_min self) (lookback_max self + 1) 10)
                       (None, Fin 0, optimal_lookback self, []) of
                  (best_profile, best_score, opt, calls) \<Rightarrow>
                   (let self' = self \<lparr> optimal_lookback := opt \<rparr>
                    in case best_profile of
                         None \<Rightarrow>
                           (Some (neutral_signal self' ''Volume profile not developed''),
                            self', calls)
                       | Some bp \<Rightarrow>
                          (case rev df of
                             current_candle # prev_candle # older \<Rightarrow>
                               (case check_entry_conditions self'
                                       (close current_candle) (low current_candle)
                                       (high current_candle) (close prev_candle) bp atr of
                                  Inl e \<Rightarrow> (None, self', calls)
                                | Inr sg \<Rightarrow> (Some sg, self', calls))
                           | _ \<Rightarrow> (None, self', calls))))))"

section \<open>Scan cycle (src/agents/strategy\_agent.py)\<close>

text \<open>
  \<^verbatim>\<open>max(symbol_signals, key=lambda x: x['confidence'])\<close>: the first signal of greatest
  confidence.
\<close>

fun max_by_confidence :: "signal \<Rightarrow> signal list \<Rightarrow> signal" where
  "max_by_confidence best [] = best"
| "max_by_confidence best (x # xs) =
     (if f_lt (confidence best) (confidence x) then max_by_confidence x xs
      else max_by_confidence best xs)"

text \<open>
  The inner loop over \<^verbatim>\<open>STRATEGY_TIMEFRAMES\<close> for one symbol.  \<open>gen tf\<close> is the outcome
  of \<^verbatim>\<open>strategy.generate_signals()\<close> for that timeframe in this cycle; an exception is
  logged and the loop continues.
\<close>

fun collect_signals :: "(string \<Rightarrow> py_error + signal option) \<Rightarrow> string list \<Rightarrow> signal list" where
  "collect_signals gen [] = []"
| "collect_signals gen (tf # tfs) =
     (case gen tf of
        Inr (Some sg) \<Rightarrow>
          if direction sg \<noteq> NEUTRAL then sg # collect_signals gen tfs
          else collect_signals gen tfs
      | _ \<Rightarrow> collect_signals gen tfs)"

text \<open>
  The outer loop over \<^verbatim>\<open>HYPERLIQUID_SYMBOLS\<close>, with \<^verbatim>\<open>all_signals\<close> as accumulator.
  \<open>existing smb\<close> is \<^verbatim>\<open>self.db.get_position_by_symbol(symbol)\<close>.  The best signal of a symbol
  is appended after it is chosen and appended again after it is printed.
\<close>

fun scan_symbols ::
  "(string \<Rightarrow> position option) \<Rightarrow> (string \<Rightarrow> string \<Rightarrow> py_error + signal option) \<Rightarrow>
   string list \<Rightarrow> string list \<Rightarrow> signal list \<Rightarrow> signal list" where
  "scan_symbols existing gen timeframes [] all_signals = all_signals"
| "scan_symbols existing gen timeframes (smb # smbs) all_signals =
     (case existing smb of
        Some existing_position \<Rightarrow> scan_symbols existing gen timeframes smbs all_signals
      | None \<Rightarrow>
         (case collect_signals (gen smb) timeframes of
            [] \<Rightarrow> scan_symbols existing gen timeframes smbs all_signals
          | sg # sgs \<Rightarrow>
             (let best_signal = max_by_confidence sg sgs
              in scan_symbols existing gen timeframes smbs
                   ((all_signals @ [best_signal]) @ [best_signal]))))"

text \<open>
  \<^verbatim>\<open>StrategyAgent.run\<close>: \<^verbatim>\<open>None\<close> when strategies are disabled, else the list
  \<^verbatim>\<open>all_signals\<close>.
\<close>

definition run ::
  "bool \<Rightarrow> (string \<Rightarrow> position option) \<Rightarrow> (string \<Rightarrow> string \<Rightarrow> py_error + signal option) \<Rightarrow>
   string list \<Rightarrow> string list \<Rightarrow> signal list option" where
  "run enable_strategies existing gen symbols timeframes =
     (if \<not> enable_strategies then None
      else Some (scan_symbols existing gen timeframes symbols []))"

text \<open>
  \<^verbatim>\<open>TradingAgent.run\<close> (src/agents/trading\_agent.py) takes the signals one by one:
  \<open>approved i\<close> is the answer of \<^verbatim>\<open>analyze_and_confirm_trade\<close> for the \<open>i\<close>-th signal and
  \<open>filled i\<close> the success of its market order.  Neither it nor \<^verbatim>\<open>execute_trade\<close> looks for
  an open position of the symbol.  The result lists the signals for which an order was
  filled and an open trade row was logged.
\<close>

fun trading_agent_run ::
  "(nat \<Rightarrow> bool) \<Rightarrow> (nat \<Rightarrow> bool) \<Rightarrow> nat \<Rightarrow> signal list \<Rightarrow> signal list" where
  "trading_agent_run approved filled i [] = []"
| "trading_agent_run approved filled i (sg # sgs) =
     (if approved i \<and> filled i then sg # trading_agent_run approved filled (Suc i) sgs
      else trading_agent_run approved filled (Suc i) sgs)"

section \<open>Sample inputs\<close>

text \<open>
  A long position with the levels of the specification's scenarios, and a short position
  whose take-profit is stored as \<open>0\<close> and whose stop-loss is NULL.
\<close>

definition sample_long :: position where
  "sample_long =
     \<lparr> pos_id = ''t-1'', pos_symbol = ''BTC'', action = ''LONG'',
       take_profit = Some 45200, stop_loss = Some 44700,
       timeout_candles = Some 15, exit_conditions = Some ''{}'' \<rparr>"

definition sample_no_targets :: position where
  "sample_no_targets =
     \<lparr> pos_id = ''t-2'', pos_symbol = ''ETH'', action = ''SHORT'',
       take_profit = Some 0, stop_loss = None,
       timeout_candles = Some 15, exit_conditions = None \<rparr>"

text \<open>
  Two candles that traded no volume, and two candles of which one traded.  The statistics
  library of the samples reports a symmetric, mesokurtic sample and a recent POC of 100.
\<close>

definition zero_volume_df :: dataframe where
  "zero_volume_df =
     [\<lparr> opn = 100, high = 110, low = 90, close = 100, volume = 0 \<rparr>,
      \<lparr> opn = 100, high = 120, low = 95, close = 105, volume = 0 \<rparr>]"

text \<open>
  A frame of 120 candles of an instrument that did not trade: the price range is 90 to
  110, every close is 100 and every volume is 0.
\<close>

definition halted_df :: dataframe where
  "halted_df = replicate 120 \<lparr> opn = 100, high = 110, low = 90, close = 100, volume = 0 \<rparr>"

definition traded_df :: dataframe where
  "traded_df =
     [\<lparr> opn = 100, high = 110, low = 90, close = 100, volume = 3 \<rparr>,
      \<lparr> opn = 100, high = 120, low = 95, close = 105, volume = 0 \<rparr>]"

definition sample_lib :: stats_lib where
  "sample_lib =
     \<lparr> recent_poc = (\<lambda>rows. Inr (Fin 100)),
       skew = (\<lambda>closes. Inr (Fin 0)),
       kurtosis = (\<lambda>closes. Inr (Fin 3)) \<rparr>"

text \<open>
  Ten candles whose closes alternate between 99 and 101, each reaching one point above and
  below its close, each with volume 1.  For this frame scipy gives a skewness of 0 and a
  Pearson kurtosis of 1, and the 20-bin cut of the ten closes has its first maximum in the
  lowest bin \<open>(98.998, 99.1]\<close>, whose midpoint is 99.049.
\<close>

definition alternating_df :: dataframe where
  "alternating_df =
     [\<lparr> opn = 100, high = 100, low = 98, close = 99, volume = 1 \<rparr>,
      \<lparr> opn = 100, high = 102, low = 100, close = 101, volume = 1 \<rparr>,
      \<lparr> opn = 100, high = 100, low = 98, close = 99, volume = 1 \<rparr>,
      \<lparr> opn = 100, high = 102, low = 100, close = 101, volume = 1 \<rparr>,
      \<lparr> opn = 100, high = 100, low = 98, close = 99, volume = 1 \<rparr>,
      \<lparr> opn = 100, high = 102, low = 100, close = 101, volume = 1 \<rparr>,
      \<lparr> opn = 100, high = 100, low = 98, close = 99, volume = 1 \<rparr>,
      \<lparr> opn = 100, high = 102, low = 100, close = 101, volume = 1 \<rparr>,
      \<lparr> opn = 100, high = 100, low = 98, close = 99, volume = 1 \<rparr>,
      \<lparr> opn = 100, high = 102, low = 100, close = 101, volume = 1 \<rparr>]"

definition alternating_lib :: stats_lib where
  "alternating_lib =
     \<lparr> recent_poc = (\<lambda>rows. Inr (Fin 99.049)),
       skew = (\<lambda>closes. Inr (Fin 0)),
       kurtosis = (\<lambda>closes. Inr (Fin 1)) \<rparr>"

text \<open>
  The strategy object that \<^verbatim>\<open>StrategyAgent\<close> builds for BTC on one-minute candles from
  the values of config.py, and the profile and candle of the specification's long
  scenario: POC 45100, value area 44900 to 45300, second sigma 44700 to 45500; the candle
  touches 44900 and closes at 44950.
\<close>

definition sample_strategy :: strategy where
  "sample_strategy =
     \<lparr> symbol = ''BTC'', timeframe = ''1m'', lookback_min = 50, lookback_max = 120,
       tp_fraction = 0.9, atr_min = 0.15, atr_max = 0.55, cfg_timeout_candles = 15,
       optimal_lookback = 50 \<rparr>"

definition sample_profile :: profile where
  "sample_profile =
     \<lparr> poc = Fin 45100, value_area_high = Fin 45300, value_area_low = Fin 44900,
       sigma_2_high = Fin 45500, sigma_2_low = Fin 44700,
       mean_price = Fin 45100, std_price = Fin 200,
       developed = True, development_score = Fin 80, lookback = 50, num_candles = 50 \<rparr>"

definition sample_long_signal :: signal where
  "sample_long_signal =
     entry_signal sample_strategy LONG sample_profile (Fin 0.3) 44950 44900
       (Fin 45085) (Fin 44632.65) 2 (Fin (135 / 317.35)) Sigma1"

text \<open>
  A profile and candle for which the reward is 1.9 times the risk: close 88.8, low 79,
  second sigma low 80 (stop 79.8, risk 9), POC 107.8 (reward \<open>0.9 \<times> 19 = 17.1\<close>).
\<close>

definition steep_profile :: profile where
  "steep_profile =
     \<lparr> poc = Fin 107.8, value_area_high = Fin 130, value_area_low = Fin 85,
       sigma_2_high = Fin 150, sigma_2_low = Fin 80,
       mean_price = Fin 107.5, std_price = Fin 22.5,
       developed = True, development_score = Fin 80, lookback = 50, num_candles = 50 \<rparr>"

text \<open>
  Modelled from the spec: the leverage rule of section 4.4,
  \<^verbatim>\<open>leverage = clamp(round(risk_reward \<times> 3), min_leverage, max_leverage)\<close>, with the bounds
  2 and 20 of config.py.  It is compared with the leverage that the code computes.
\<close>

definition clamp :: "int \<Rightarrow> int \<Rightarrow> int \<Rightarrow> int" where
  "clamp x lo hi = max lo (min hi x)"

definition spec_leverage :: "real \<Rightarrow> int" where
  "spec_leverage rr = clamp (round (rr * 3)) 2 20"

text \<open>
  One scan cycle: no symbol has an open position; the one-minute strategy of BTC returns
  \<open>sample_long_signal\<close>, every other call returns a neutral signal.
\<close>

definition sample_gen :: "string \<Rightarrow> string \<Rightarrow> py_error + signal option" where
  "sample_gen smb tf =
     (if smb = ''BTC'' \<and> tf = ''1m'' then Inr (Some sample_long_signal)
      else Inr (Some (neutral_signal sample_strategy ''Waiting for mean reversion setup'')))"

section \<open>Specification of the lookback search\<close>

text \<open>
  The candidates of the search of section 4.2: the profiles computed at the given
  lookbacks that are developed, in the order of the lookbacks.
\<close>

definition developed_profiles :: "stats_lib \<Rightarrow> dataframe \<Rightarrow> int list \<Rightarrow> profile list" where
  "developed_profiles lib df lbs =
     filter developed (List.map_filter (calculate_volume_profile lib df) lbs)"

text \<open>
  \<open>p\<close> is the best of the candidates \<open>ps\<close>: it is one of them, none has a higher
  development score, and none of equal score has a smaller lookback.
\<close>

definition best_among :: "profile list \<Rightarrow> profile \<Rightarrow> bool" where
  "best_among ps p =
     (p \<in> set ps \<and>
      (\<forall>q \<in> set ps. f_le (development_score q) (development_score p) \<and>
                     (development_score q = development_score p \<longrightarrow> lookback p \<le> lookback q)))"

text \<open>
  What the loop state records once the lookbacks \<open>done\<close> have been tried: no best
  profile and a best score of \<open>0\<close> while no candidate exists, else the best candidate, its
  score and its lookback.
\<close>

definition search_inv :: "stats_lib \<Rightarrow> dataframe \<Rightarrow> int list \<Rightarrow> search_state \<Rightarrow> bool" where
  "search_inv lib df done st =
     (case st of (best_profile, best_score, opt, calls) \<Rightarrow>
        (case best_profile of
           None \<Rightarrow> best_score = Fin 0 \<and> developed_profiles lib df done = []
         | Some p \<Rightarrow> best_score = development_score p \<and> opt = lookback p \<and>
                     best_among (developed_profiles lib df done) p))"

text \<open>
  Two frames of 120 equal candles: a flat one, whose true range is 0, and one whose true
  range is 0.15 at a close of 100, so that its ATR percentage is exactly \<open>atr_min\<close>.  The
  failing library raises in every call.
\<close>

definition flat_df :: dataframe where
  "flat_df = replicate 120 \<lparr> opn = 100, high = 100, low = 100, close = 100, volume = 1 \<rparr>"

definition boundary_df :: dataframe where
  "boundary_df =
     replicate 120 \<lparr> opn = 100, high = 100.075, low = 99.925, close = 100, volume = 1 \<rparr>"

definition failing_lib :: stats_lib where
  "failing_lib =
     \<lparr> recent_poc = (\<lambda>rows. Inl ValueError),
       skew = (\<lambda>closes. Inl ValueError),
       kurtosis = (\<lambda>closes. Inl ValueError) \<rparr>"

text \<open>
  A strategy object built with both lookbacks set to 2, and a frame of 15 candles of true
  range 0.15 at a close of 100, for runs that reach the entry conditions.
\<close>

definition short_strategy :: strategy where
  "short_strategy =
     \<lparr> symbol = ''BTC'', timeframe = ''1m'', lookback_min = 2, lookback_max = 2,
       tp_fraction = 0.9, atr_min = 0.15, atr_max = 0.55, cfg_timeout_candles = 15,
       optimal_lookback = 2 \<rparr>"

definition short_df :: dataframe where
  "short_df =
     replicate 15 \<lparr> opn = 100, high = 100.075, low = 99.925, close = 100, volume = 1 \<rparr>"

section \<open>Verified properties\<close>

subsection \<open>Exit evaluation\<close>

text \<open>
  Claim C2.  For a position whose exit-conditions text parses (it is NULL, empty, or
  accepted by the JSON parser, as every row written by \<^verbatim>\<open>log_trade\<close> is) and whose
  take-profit, stop-loss and timeout are truthy, \<^verbatim>\<open>check_exit_conditions\<close> tests
  take-profit, then stop-loss, then timeout, and returns the first reason that matches.
  So a take-profit hit together with an expired timeout reports \<^verbatim>\<open>take_profit\<close>, and a
  price strictly between stop-loss and take-profit (on the side the direction gives them)
  with an expired timeout reports \<^verbatim>\<open>timeout\<close>.
\<close>

theorem check_exit_conditions_priority:
  assumes parse_ok:
      "parse_exit_conditions json_loads empty_dict (exit_conditions position) = Inr parsed"
    and tp: "take_profit position = Some tp" "tp \<noteq> 0"
    and sl: "stop_loss position = Some sl" "sl \<noteq> 0"
    and tc: "timeout_candles position = Some tc" "tc \<noteq> 0"
  shows "check_exit_conditions json_loads empty_dict position current_price candles_held =
           (if (action position = ''LONG'' \<and> current_price \<ge> tp) \<or>
               (action position = ''SHORT'' \<and> current_price \<le> tp)
            then (True, Some ''take_profit'')
            else if (action position = ''LONG'' \<and> current_price \<le> sl) \<or>
                    (action position = ''SHORT'' \<and> current_price \<ge> sl)
            then (True, Some ''stop_loss'')
            else if candles_held \<ge> tc then (True, Some ''timeout'')
            else (False, None)) \<and>
         (((action position = ''LONG'' \<and> current_price \<ge> tp) \<or>
           (action position = ''SHORT'' \<and> current_price \<le> tp)) \<and> candles_held \<ge> tc \<longrightarrow>
          check_exit_conditions json_loads empty_dict position current_price candles_held =
            (True, Some ''take_profit'')) \<and>
         (((action position = ''LONG'' \<and> sl < current_price \<and> current_price < tp) \<or>
           (action position = ''SHORT'' \<and> tp < current_price \<and> current_price < sl)) \<and>
          candles_held \<ge> tc \<longrightarrow>
          check_exit_conditions json_loads empty_dict position current_price candles_held =
            (True, Some ''timeout''))"
  using assms
  by (auto simp: check_exit_conditions_def take_profit_hit_def stop_loss_hit_def timeout_hit_def)

text \<open>
  The scenarios of the specification on \<open>sample_long\<close>: price 45210 after 15 candles
  exits on take-profit, price 45000 after 15 candles exits on timeout.
\<close>

theorem check_exit_conditions_priority_witness:
  "check_exit_conditions (\<lambda>s. Inr ()) () sample_long 45210 15 = (True, Some ''take_profit'') \<and>
   check_exit_conditions (\<lambda>s. Inr ()) () sample_long 45000 15 = (True, Some ''timeout'')"
proof -
  have p: "parse_exit_conditions (\<lambda>s. Inr ()) () (exit_conditions sample_long) = Inr ()"
    by (simp add: parse_exit_conditions_def sample_long_def)
  have f: "take_profit sample_long = Some 45200" "(45200::real) \<noteq> 0"
          "stop_loss sample_long = Some 44700" "(44700::real) \<noteq> 0"
          "timeout_candles sample_long = Some 15" "(15::int) \<noteq> 0"
          "action sample_long = ''LONG''"
    by (simp_all add: sample_long_def)
  from check_exit_conditions_priority [OF p f(1-6), of 45210 15]
       check_exit_conditions_priority [OF p f(1-6), of 45000 15]
  show ?thesis by (simp add: f(7))
qed

text \<open>
  Claim C10.  A take-profit stored as \<open>0\<close> or NULL never yields the reason
  \<^verbatim>\<open>take_profit\<close>, whatever the price; a stop-loss stored as \<open>0\<close> or NULL never yields
  \<^verbatim>\<open>stop_loss\<close>; with both falsy the result is a timeout exit or no exit.
\<close>

theorem check_exit_conditions_falsy_levels:
  "((take_profit position = None \<or> take_profit position = Some 0) \<longrightarrow>
      snd (check_exit_conditions json_loads empty_dict position current_price candles_held)
        \<noteq> Some ''take_profit'') \<and>
   ((stop_loss position = None \<or> stop_loss position = Some 0) \<longrightarrow>
      snd (check_exit_conditions json_loads empty_dict position current_price candles_held)
        \<noteq> Some ''stop_loss'') \<and>
   ((take_profit position = None \<or> take_profit position = Some 0) \<and>
    (stop_loss position = None \<or> stop_loss position = Some 0) \<longrightarrow>
      check_exit_conditions json_loads empty_dict position current_price candles_held
        = (True, Some ''timeout'') \<or>
      check_exit_conditions json_loads empty_dict position current_price candles_held
        = (False, None))"
  by (auto simp: check_exit_conditions_def take_profit_hit_def stop_loss_hit_def
           split: sum.splits option.splits)

text \<open>On \<open>sample_no_targets\<close>, held for 20 candles, only the timeout fires.\<close>

theorem check_exit_conditions_falsy_levels_witness:
  "take_profit sample_no_targets = Some 0 \<and> stop_loss sample_no_targets = None \<and>
   snd (check_exit_conditions (\<lambda>s. Inl JSONDecodeError) () sample_no_targets 1 20)
     \<noteq> Some ''take_profit'' \<and>
   snd (check_exit_conditions (\<lambda>s. Inl JSONDecodeError) () sample_no_targets 1 20)
     \<noteq> Some ''stop_loss'' \<and>
   check_exit_conditions (\<lambda>s. Inl JSONDecodeError) () sample_no_targets 1 20
     = (True, Some ''timeout'')"
proof -
  have f: "take_profit sample_no_targets = Some 0" "stop_loss sample_no_targets = None"
    by (simp_all add: sample_no_targets_def)
  have t: "check_exit_conditions (\<lambda>s. Inl JSONDecodeError) () sample_no_targets 1 20
             \<noteq> (False, None)"
    by (simp add: check_exit_conditions_def parse_exit_conditions_def take_profit_hit_def
          stop_loss_hit_def timeout_hit_def sample_no_targets_def)
  from check_exit_conditions_falsy_levels
         [of sample_no_targets "\<lambda>s. Inl JSONDecodeError" "()" 1 20] f t
  show ?thesis by simp
qed

subsection \<open>Development score\<close>

text \<open>
  Each of the first three sub-scores is a finite number in \<open>[0, 100]\<close> for every input,
  non-finite ones included; the coverage score is, once the slice is not empty.
\<close>

lemma poc_drift_score_range: "\<exists>s. poc_drift_score d = Fin s \<and> 0 \<le> s \<and> s \<le> 100"
  by (cases d) (auto simp: poc_drift_score_def py_max0_def f_sub_def signed_inf_def)

lemma skewness_score_range: "\<exists>s. skewness_score d = Fin s \<and> 0 \<le> s \<and> s \<le> 100"
  by (cases d) (auto simp: skewness_score_def py_max0_def f_sub_def signed_inf_def)

lemma kurtosis_score_range: "\<exists>s. kurtosis_score d = Fin s \<and> 0 \<le> s \<and> s \<le> 100"
  by (cases d) (auto simp: kurtosis_score_def py_max0_def f_sub_def signed_inf_def)

lemma va_score_range:
  assumes "0 \<le> c" "c \<le> 100"
  shows "\<exists>s. va_score (Fin c) = Fin s \<and> 0 \<le> s \<and> s \<le> 100"
proof (cases "65 \<le> c")
  case True
  then show ?thesis by (simp add: va_score_def)
next
  case False
  with assms have "va_score (Fin c) = Fin (c * (100 / 65))"
      "0 \<le> c * (100 / 65)" "c * (100 / 65) \<le> 100"
    by (simp_all add: va_score_def)
  then show ?thesis by blast
qed

lemma va_coverage_range:
  assumes "data \<noteq> []"
  shows "\<exists>c. f_mul (f_div (Fin (real (length (filter P data)))) (Fin (real (length data))))
                   (Fin 100) = Fin c \<and> 0 \<le> c \<and> c \<le> 100"
proof -
  let ?w = "real (length (filter P data))" and ?n = "real (length data)"
  have "length (filter P data) \<le> length data" by simp
  then have le: "?w \<le> ?n" by linarith
  from assms have pos: "0 < ?n" by simp
  from le pos have "?w / ?n \<le> 1" by (simp add: divide_le_eq)
  then have "?w / ?n * 100 \<le> 1 * 100" by (intro mult_right_mono) simp_all
  then have "?w / ?n * 100 \<le> 100" by (simp only: mult_1)
  moreover have "0 \<le> ?w / ?n * 100" by simp
  moreover from pos have "f_mul (f_div (Fin ?w) (Fin ?n)) (Fin 100) = Fin (?w / ?n * 100)"
    by simp
  ultimately show ?thesis by blast
qed

lemma check_development_range:
  assumes "data \<noteq> []"
  shows "\<exists>s. snd (check_development lib data poc_v mean std) = Fin s \<and> 0 \<le> s \<and> s \<le> 100 \<and>
             (fst (check_development lib data poc_v mean std) \<longleftrightarrow> 70 \<le> s)"
proof -
  let ?first = "(if length data \<ge> 10
            then (case recent_poc lib (tail_df 10 data) of
                    Inl e \<Rightarrow> Inl e
                  | Inr rp \<Rightarrow>
                      Inr (poc_drift_score
                             (f_mul (f_div (f_abs (f_sub rp poc_v)) poc_v) (Fin 100))))
            else Inr (Fin 50))"
  show ?thesis
  proof (cases ?first)
    case (Inl e)
    then show ?thesis by (simp add: check_development_def)
  next
    case (Inr s1)
    then obtain a where a: "s1 = Fin a" "0 \<le> a" "a \<le> 100"
      using poc_drift_score_range by (fastforce split: if_splits sum.splits)
    show ?thesis
    proof (cases "skew lib (map close data)")
      case (Inl e)
      with Inr show ?thesis by (simp add: check_development_def)
    next
      case skw: (Inr skewness)
      obtain b where b: "skewness_score skewness = Fin b" "0 \<le> b" "b \<le> 100"
        using skewness_score_range by blast
      show ?thesis
      proof (cases "kurtosis lib (map close data)")
        case (Inl e)
        with Inr skw show ?thesis by (simp add: check_development_def)
      next
        case krt: (Inr kurt)
        obtain c where c: "kurtosis_score kurt = Fin c" "0 \<le> c" "c \<le> 100"
          using kurtosis_score_range by blast
        let ?P = "\<lambda>c. f_le (f_sub mean std) (Fin (close c)) \<and>
                       f_le (Fin (close c)) (f_add mean std)"
        obtain cov where cov:
          "f_mul (f_div (Fin (real (length (filter ?P data)))) (Fin (real (length data))))
                 (Fin 100) = Fin cov" "0 \<le> cov" "cov \<le> 100"
          using va_coverage_range[OF assms, of ?P] by blast
        obtain d where d: "va_score (Fin cov) = Fin d" "0 \<le> d" "d \<le> 100"
          using va_score_range[OF cov(2,3)] by blast
        have "check_development lib data poc_v mean std =
                (f_le (Fin 70) (Fin ((a + b + c + d) / 4)), Fin ((a + b + c + d) / 4))"
          using Inr skw krt a b c d cov
          unfolding check_development_def Let_def by simp
        moreover have "0 \<le> (a + b + c + d) / 4" "(a + b + c + d) / 4 \<le> 100"
          using a b c d by simp_all
        ultimately show ?thesis
          by (intro exI[of _ "(a + b + c + d) / 4"]) simp
      qed
    qed
  qed
qed

text \<open>What a returned profile records of the slice it was computed from.\<close>

lemma profile_body_fields:
  assumes "profile_body lib data lb = Inr p"
  shows "data \<noteq> []"
    and "\<exists>poc_v. developed p = fst (check_development lib data poc_v (mean_price p) (std_price p)) \<and>
           development_score p = snd (check_development lib data poc_v (mean_price p) (std_price p))"
    and "lookback p = lb"
    and "mean_price p = f_div (Fin (sum_list (map (\<lambda>c. close c * volume c) data)))
                              (Fin (sum_list (map volume data)))"
  using assms
  by (auto simp: profile_body_def Let_def split: list.splits sum.splits)

lemma calculate_volume_profile_body:
  assumes "calculate_volume_profile lib df lb = Some p"
  shows "profile_body lib (tail_df lb df) lb = Inr p"
  using assms by (auto simp: calculate_volume_profile_def split: if_splits sum.splits)

lemma profile_score_range:
  assumes "calculate_volume_profile lib df lb = Some p"
  shows "\<exists>s. development_score p = Fin s \<and> 0 \<le> s \<and> s \<le> 100 \<and> (developed p \<longleftrightarrow> 70 \<le> s)"
proof -
  from assms have body: "profile_body lib (tail_df lb df) lb = Inr p"
    by (rule calculate_volume_profile_body)
  from profile_body_fields(1,2)[OF body] check_development_range
  show ?thesis by metis
qed

text \<open>
  How \<^verbatim>\<open>_check_development\<close> arrives at its result.  When a library call raises, the
  handler returns \<^verbatim>\<open>(False, 0)\<close>.  When none does, the four entries of \<^verbatim>\<open>scores\<close> are
  the drift score (or the neutral 50 below ten candles), the skewness score, the kurtosis
  score and the coverage score, each a finite number in \<open>[0, 100]\<close>; the quality score is
  their sum divided by four and the flag compares it with 70.  The profile stores that
  flag and that score.
\<close>

lemma va_coverage_finite:
  assumes "data \<noteq> []"
  shows "\<exists>c. va_coverage data mean std = Fin c \<and> 0 \<le> c \<and> c \<le> 100"
  unfolding va_coverage_def Let_def by (rule va_coverage_range[OF assms])

lemma check_development_raises:
  assumes "(10 \<le> length data \<and> (\<exists>e. recent_poc lib (tail_df 10 data) = Inl e)) \<or>
           (\<exists>e. skew lib (map close data) = Inl e) \<or>
           (\<exists>e. kurtosis lib (map close data) = Inl e)"
  shows "check_development lib data poc_v mean std = (False, Fin 0)"
  using assms
  by (auto simp: check_development_def split: sum.splits)

lemma check_development_average:
  assumes "data \<noteq> []"
    and "length data < 10 \<or> recent_poc lib (tail_df 10 data) = Inr rp"
    and "skew lib (map close data) = Inr sk"
    and "kurtosis lib (map close data) = Inr ku"
  shows "\<exists>a b c d.
           (if 10 \<le> length data then poc_drift_score (poc_drift rp poc_v) else Fin 50) = Fin a \<and>
           skewness_score sk = Fin b \<and> kurtosis_score ku = Fin c \<and>
           va_score (va_coverage data mean std) = Fin d \<and>
           0 \<le> a \<and> a \<le> 100 \<and> 0 \<le> b \<and> b \<le> 100 \<and>
           0 \<le> c \<and> c \<le> 100 \<and> 0 \<le> d \<and> d \<le> 100 \<and>
           check_development lib data poc_v mean std =
             (70 \<le> (a + b + c + d) / 4, Fin ((a + b + c + d) / 4))"
proof -
  let ?s1 = "if 10 \<le> length data then poc_drift_score (poc_drift rp poc_v) else Fin 50"
  obtain a where a: "?s1 = Fin a" "0 \<le> a" "a \<le> 100"
    using poc_drift_score_range[of "poc_drift rp poc_v"] by (cases "10 \<le> length data") auto
  obtain b where b: "skewness_score sk = Fin b" "0 \<le> b" "b \<le> 100"
    using skewness_score_range by blast
  obtain c where c: "kurtosis_score ku = Fin c" "0 \<le> c" "c \<le> 100"
    using kurtosis_score_range by blast
  obtain cov where cov: "va_coverage data mean std = Fin cov" "0 \<le> cov" "cov \<le> 100"
    using va_coverage_finite[OF assms(1)] by blast
  obtain d where d: "va_score (Fin cov) = Fin d" "0 \<le> d" "d \<le> 100"
    using va_score_range[OF cov(2,3)] by blast
  have first: "(if length data \<ge> 10
            then (case recent_poc lib (tail_df 10 data) of
                    Inl e \<Rightarrow> Inl e
                  | Inr rp \<Rightarrow>
                      Inr (poc_drift_score
                             (f_mul (f_div (f_abs (f_sub rp poc_v)) poc_v) (Fin 100))))
            else Inr (Fin 50)) = Inr (Fin a)"
    using assms(2) a(1) by (auto simp: poc_drift_def)
  have cov': "f_mul (f_div (Fin (real (length (filter (\<lambda>c. f_le (f_sub mean std) (Fin (close c)) \<and>
                       f_le (Fin (close c)) (f_add mean std)) data))))
                 (Fin (real (length data)))) (Fin 100) = Fin cov"
    using cov(1) by (simp add: va_coverage_def Let_def)
  have "check_development lib data poc_v mean std =
          (70 \<le> (a + b + c + d) / 4, Fin ((a + b + c + d) / 4))"
    unfolding check_development_def Let_def first
    using assms(3,4) b(1) c(1) d(1) cov' by simp
  with a b c d cov(1) show ?thesis by auto
qed


lemma profile_body_development:
  assumes "profile_body lib data lb = Inr p"
  shows "check_development lib data (poc p) (mean_price p) (std_price p) =
           (developed p, development_score p)"
  using assms
  by (auto simp: profile_body_def Let_def split: list.splits sum.splits)

text \<open>
  Claim C7.  For every profile that \<^verbatim>\<open>calculate_volume_profile\<close> returns:
  \<^item> the development score is a finite number in \<open>[0, 100]\<close>, and the \<open>developed\<close> flag
    is true exactly when the score is at least 70;
  \<^item> when the statistics library returns its three values, each of the four sub-scores
    (drift, or 50 for a slice of fewer than ten candles; skewness; kurtosis; value-area
    coverage) lies in \<open>[0, 100]\<close>, the development score is their average, and the flag
    is that average compared with 70;
  \<^item> when a library call raises, the score is 0 and the flag is false.
  The estimator is a function of the slice and of the library's answers, so equal inputs
  give equal scores and flags.
\<close>

theorem development_score_bounded:
  assumes "calculate_volume_profile lib df lookback_v = Some p"
  shows "(\<exists>s. development_score p = Fin s \<and> 0 \<le> s \<and> s \<le> 100 \<and> (developed p \<longleftrightarrow> 70 \<le> s)) \<and>
         (\<forall>rp sk ku.
            (length (tail_df lookback_v df) < 10 \<or>
             recent_poc lib (tail_df 10 (tail_df lookback_v df)) = Inr rp) \<and>
            skew lib (map close (tail_df lookback_v df)) = Inr sk \<and>
            kurtosis lib (map close (tail_df lookback_v df)) = Inr ku \<longrightarrow>
            (\<exists>a b c d.
               (if 10 \<le> length (tail_df lookback_v df)
                then poc_drift_score (poc_drift rp (poc p)) else Fin 50) = Fin a \<and>
               skewness_score sk = Fin b \<and>
               kurtosis_score ku = Fin c \<and>
               va_score (va_coverage (tail_df lookback_v df) (mean_price p) (std_price p))
                 = Fin d \<and>
               0 \<le> a \<and> a \<le> 100 \<and> 0 \<le> b \<and> b \<le> 100 \<and>
               0 \<le> c \<and> c \<le> 100 \<and> 0 \<le> d \<and> d \<le> 100 \<and>
               development_score p = Fin ((a + b + c + d) / 4) \<and>
               (developed p \<longleftrightarrow> 70 \<le> (a + b + c + d) / 4))) \<and>
         ((10 \<le> length (tail_df lookback_v df) \<and>
             (\<exists>e. recent_poc lib (tail_df 10 (tail_df lookback_v df)) = Inl e)) \<or>
          (\<exists>e. skew lib (map close (tail_df lookback_v df)) = Inl e) \<or>
          (\<exists>e. kurtosis lib (map close (tail_df lookback_v df)) = Inl e) \<longrightarrow>
            development_score p = Fin 0 \<and> \<not> developed p)"
proof -
  let ?data = "tail_df lookback_v df"
  from assms have body: "profile_body lib ?data lookback_v = Inr p"
    by (rule calculate_volume_profile_body)
  note dev = profile_body_development[OF body]
  from profile_body_fields(1)[OF body] have ne: "?data \<noteq> []" .
  have 1: "\<exists>s. development_score p = Fin s \<and> 0 \<le> s \<and> s \<le> 100 \<and> (developed p \<longleftrightarrow> 70 \<le> s)"
    using assms by (rule profile_score_range)
  have 2: "\<exists>a b c d.
               (if 10 \<le> length ?data
                then poc_drift_score (poc_drift rp (poc p)) else Fin 50) = Fin a \<and>
               skewness_score sk = Fin b \<and>
               kurtosis_score ku = Fin c \<and>
               va_score (va_coverage ?data (mean_price p) (std_price p)) = Fin d \<and>
               0 \<le> a \<and> a \<le> 100 \<and> 0 \<le> b \<and> b \<le> 100 \<and>
               0 \<le> c \<and> c \<le> 100 \<and> 0 \<le> d \<and> d \<le> 100 \<and>
               development_score p = Fin ((a + b + c + d) / 4) \<and>
               (developed p \<longleftrightarrow> 70 \<le> (a + b + c + d) / 4)"
    if "(length ?data < 10 \<or> recent_poc lib (tail_df 10 ?data) = Inr rp) \<and>
        skew lib (map close ?data) = Inr sk \<and> kurtosis lib (map close ?data) = Inr ku"
    for rp sk ku
  proof -
    from that have h: "length ?data < 10 \<or> recent_poc lib (tail_df 10 ?data) = Inr rp"
      "skew lib (map close ?data) = Inr sk" "kurtosis lib (map close ?data) = Inr ku"
      by simp_all
    from check_development_average[OF ne h, of "poc p" "mean_price p" "std_price p"]
    obtain a b c d where abcd:
      "(if 10 \<le> length ?data then poc_drift_score (poc_drift rp (poc p)) else Fin 50) = Fin a"
      "skewness_score sk = Fin b" "kurtosis_score ku = Fin c"
      "va_score (va_coverage ?data (mean_price p) (std_price p)) = Fin d"
      "0 \<le> a" "a \<le> 100" "0 \<le> b" "b \<le> 100" "0 \<le> c" "c \<le> 100" "0 \<le> d" "d \<le> 100"
      "check_development lib ?data (poc p) (mean_price p) (std_price p) =
         (70 \<le> (a + b + c + d) / 4, Fin ((a + b + c + d) / 4))"
      by blast
    from abcd(13) dev have "development_score p = Fin ((a + b + c + d) / 4)"
      "developed p \<longleftrightarrow> 70 \<le> (a + b + c + d) / 4"
      by simp_all
    with abcd(1-12) show ?thesis by blast
  qed
  have 3: "development_score p = Fin 0 \<and> \<not> developed p"
    if "(10 \<le> length ?data \<and> (\<exists>e. recent_poc lib (tail_df 10 ?data) = Inl e)) \<or>
        (\<exists>e. skew lib (map close ?data) = Inl e) \<or>
        (\<exists>e. kurtosis lib (map close ?data) = Inl e)"
    using check_development_raises[OF that, of "poc p" "mean_price p" "std_price p"] dev
    by simp
  from 1 2 3 show ?thesis by blast
qed

text \<open>The estimator on \<open>alternating_df\<close> with a lookback of ten candles.\<close>

lemma alternating_profile:
  "\<exists>p. calculate_volume_profile alternating_lib alternating_df 10 = Some p \<and>
       poc p = Fin 99.2 \<and> mean_price p = Fin 100 \<and> std_price p = Fin 1"
  by (simp add: calculate_volume_profile_def alternating_df_def tail_df_def profile_body_def
      linspace_def upt_conv_Cons cut_bins_def cut_label_def groupby_sum_def List.map_filter_def
      sum_skipna_def f_sub_def Let_def)

text \<open>
  On \<open>alternating_df\<close> the drift of 0.15 percent scores 100, the skewness 0 scores 100,
  the kurtosis 1 scores 0 and the coverage of 100 percent scores 100; the development score
  is their average 75 and the profile is developed.
\<close>

theorem development_score_bounded_witness:
  "\<exists>p. calculate_volume_profile alternating_lib alternating_df 10 = Some p \<and>
       poc_drift_score (poc_drift (Fin 99.049) (poc p)) = Fin 100 \<and>
       skewness_score (Fin 0) = Fin 100 \<and>
       kurtosis_score (Fin 1) = Fin 0 \<and>
       va_score (va_coverage (tail_df 10 alternating_df) (mean_price p) (std_price p)) = Fin 100 \<and>
       development_score p = Fin 75 \<and> developed p"
proof -
  from alternating_profile obtain p where
    p: "calculate_volume_profile alternating_lib alternating_df 10 = Some p"
    and f: "poc p = Fin 99.2" "mean_price p = Fin 100" "std_price p = Fin 1"
    by blast
  let ?data = "tail_df 10 alternating_df"
  have len: "length ?data = 10"
    by (simp add: tail_df_def alternating_df_def)
  have lib: "recent_poc alternating_lib (tail_df 10 ?data) = Inr (Fin 99.049)"
    "skew alternating_lib (map close ?data) = Inr (Fin 0)"
    "kurtosis alternating_lib (map close ?data) = Inr (Fin 1)"
    by (simp_all add: alternating_lib_def)
  have s1: "poc_drift_score (poc_drift (Fin 99.049) (poc p)) = Fin 100"
    by (simp add: f poc_drift_def poc_drift_score_def f_sub_def)
  have s2: "skewness_score (Fin 0) = Fin 100"
    by (simp add: skewness_score_def)
  have s3: "kurtosis_score (Fin 1) = Fin 0"
    by (simp add: kurtosis_score_def py_max0_def f_sub_def)
  have s4: "va_score (va_coverage ?data (mean_price p) (std_price p)) = Fin 100"
    by (simp add: f va_coverage_def va_score_def tail_df_def alternating_df_def f_sub_def Let_def)
  from development_score_bounded[OF p] lib len
  obtain a b c d where abcd:
      "(if 10 \<le> length ?data
        then poc_drift_score (poc_drift (Fin 99.049) (poc p)) else Fin 50) = Fin a"
      "skewness_score (Fin 0) = Fin b" "kurtosis_score (Fin 1) = Fin c"
      "va_score (va_coverage ?data (mean_price p) (std_price p)) = Fin d"
      "development_score p = Fin ((a + b + c + d) / 4)"
      "developed p \<longleftrightarrow> 70 \<le> (a + b + c + d) / 4"
    by blast
  from abcd(1-4) s1 s2 s3 s4 len have "a = 100" "b = 100" "c = 0" "d = 100" by simp_all
  with abcd(5,6) have "development_score p = Fin 75" "developed p" by simp_all
  with p s1 s2 s3 s4 show ?thesis by blast
qed

subsection \<open>Zero volume\<close>

text \<open>
  A slice whose candles all have zero volume: whenever the estimator returns a profile for
  it, the mean price of that profile is \<^verbatim>\<open>nan\<close>.
\<close>

lemma sum_list_all_zero:
  fixes f :: "'a \<Rightarrow> real"
  assumes "\<forall>x \<in> set xs. f x = 0"
  shows "sum_list (map f xs) = 0"
  using assms by (induction xs) simp_all

lemma zero_volume_mean_nan:
  assumes "calculate_volume_profile lib df lb = Some p"
    and "\<forall>c \<in> set (tail_df lb df). volume c = 0"
  shows "mean_price p = NaN"
proof -
  from assms(1) have body: "profile_body lib (tail_df lb df) lb = Inr p"
    by (rule calculate_volume_profile_body)
  from assms(2) have "sum_list (map volume (tail_df lb df)) = 0"
    by (rule sum_list_all_zero)
  moreover from assms(2) have "sum_list (map (\<lambda>c. close c * volume c) (tail_df lb df)) = 0"
    by (intro sum_list_all_zero) simp
  ultimately show ?thesis
    using profile_body_fields(4)[OF body] by (simp add: signed_inf_def)
qed

text \<open>
  The smallest case: two candles without volume, lookback 2.  The estimator returns a
  profile, for every behaviour of the statistics library, and its mean, standard deviation
  and band limits are \<^verbatim>\<open>nan\<close>.
\<close>

lemma zero_volume_two_candles:
  "\<exists>p. calculate_volume_profile lib zero_volume_df 2 = Some p \<and>
       sum_list (map volume (tail_df 2 zero_volume_df)) = 0 \<and>
       mean_price p = NaN \<and> std_price p = NaN \<and>
       value_area_high p = NaN \<and> value_area_low p = NaN \<and>
       sigma_2_high p = NaN \<and> sigma_2_low p = NaN"
  by (simp add: calculate_volume_profile_def zero_volume_df_def tail_df_def profile_body_def
      linspace_def cut_bins_def cut_label_def groupby_sum_def List.map_filter_def sum_skipna_def
      signed_inf_def f_sub_def Let_def)

text \<open>
  The estimator on the last 50 candles of \<open>halted_df\<close>, step by step: 25 bins between 90
  and 110, every close in bin 12, whose volume sum of 0 is the maximum.
\<close>

lemma fold_max_replicate: "(max (x::real) ^^ n) x = x"
  by (induction n) simp_all

lemma fold_min_replicate: "(min (x::real) ^^ n) x = x"
  by (induction n) simp_all

lemma foldl_f_add_zero: "foldl f_add (Fin 0) (replicate n (Fin 0)) = Fin 0"
  by (induction n) simp_all

lemma halted_bins: "linspace 90 110 26 =
  [90, 90.8, 91.6, 92.4, 93.2, 94, 94.8, 95.6, 96.4, 97.2, 98, 98.8, 99.6, 100.4, 101.2, 102,
   102.8, 103.6, 104.4, 105.2, 106, 106.8, 107.6, 108.4, 109.2, 110]"
  by (simp add: linspace_def upt_conv_Cons)

lemma halted_label: "cut_label (linspace 90 110 26) 100 = Some 12"
  unfolding halted_bins by (simp add: cut_label_def Let_def)

lemma halted_cut: "cut_bins (replicate 50 100) (linspace 90 110 26) = Inr (replicate 50 (Some 12))"
proof -
  have "sorted (linspace 90 110 26)" "distinct (linspace 90 110 26)"
    unfolding halted_bins by simp_all
  then show ?thesis
    by (simp add: cut_bins_def halted_label)
qed

lemma remdups_replicate_Suc: "remdups (replicate (Suc n) x) = [x]"
  by (induction n) simp_all


lemma halted_groups:
  "groupby_sum (replicate 50 (Some (12::nat), 0::real)) = [(12, 0)]"
proof -
  have "remdups (replicate 50 (12::nat)) = [12]"
    using remdups_replicate_Suc[of 49 "12::nat"] by simp
  then show ?thesis
    by (simp add: groupby_sum_def List.map_filter_def zip_replicate sum_list_replicate)
qed

lemma halted_tail: "tail_df 50 halted_df =
   replicate 50 \<lparr> opn = 100, high = 110, low = 90, close = 100, volume = 0 \<rparr>"
  by (simp add: tail_df_def halted_df_def)

lemma halted_body:
  "\<exists>p. profile_body lib (replicate 50 \<lparr> opn = 100, high = 110, low = 90, close = 100, volume = 0 \<rparr>) 50
         = Inr p \<and> poc p = Fin 100 \<and> mean_price p = NaN \<and> std_price p = NaN \<and>
           value_area_high p = NaN \<and> value_area_low p = NaN \<and>
           sigma_2_high p = NaN \<and> sigma_2_low p = NaN"
proof -
  let ?c = "\<lparr> opn = 100, high = 110, low = 90, close = 100, volume = 0 \<rparr>"
  have r: "replicate 50 ?c = ?c # replicate 49 ?c" by (simp add: eval_nat_numeral)
  have nth: "linspace 90 110 26 ! 12 = 99.6" unfolding halted_bins by simp
  show ?thesis
    unfolding profile_body_def Let_def
    apply (simp only: r list.case)
    apply (simp only: r[symmetric])
    apply (simp add: fold_max_replicate fold_min_replicate halted_cut halted_groups nth
        sum_skipna_def signed_inf_def f_sub_def sum_list_replicate)
    done
qed

text \<open>
  Claim C1.  The claim asks for a rejection on every slice of zero total volume.  On
  \<open>halted_df\<close> with the lookback 50, the first that \<^verbatim>\<open>generate_signals\<close> tries under
  config.py, the estimator instead returns a profile, for every behaviour of the
  statistics library, and the mean, the standard deviation and the four band limits of
  that profile are \<^verbatim>\<open>nan\<close>: \<^verbatim>\<open>total_volume\<close> is never tested before it divides.
\<close>

theorem zero_volume_profile_has_nan:
  "\<exists>p. calculate_volume_profile lib halted_df 50 = Some p \<and>
       sum_list (map volume (tail_df 50 halted_df)) = 0 \<and>
       mean_price p = NaN \<and> std_price p = NaN \<and>
       value_area_high p = NaN \<and> value_area_low p = NaN \<and>
       sigma_2_high p = NaN \<and> sigma_2_low p = NaN"
proof -
  have "\<not> int (length halted_df) < 50" by (simp add: halted_df_def)
  moreover have "sum_list (map volume (tail_df 50 halted_df)) = 0"
    unfolding halted_tail by (simp add: sum_list_replicate)
  ultimately show ?thesis
    using halted_body[of lib]
    unfolding calculate_volume_profile_def halted_tail by auto
qed

subsection \<open>Scan cycle\<close>

text \<open>
  A symbol without an open position for which some timeframe gives an entry signal
  contributes its best signal to \<^verbatim>\<open>all_signals\<close> twice.
\<close>

lemma scan_symbols_appends_twice:
  assumes "existing smb = None" "collect_signals (gen smb) timeframes = sg # sgs"
  shows "scan_symbols existing gen timeframes [smb] acc =
           acc @ [max_by_confidence sg sgs, max_by_confidence sg sgs]"
  using assms by (simp add: Let_def)

text \<open>
  Claim C3.  The claim allows at most one entry signal per symbol in a scan cycle.  In the
  cycle of \<open>sample_gen\<close>, where BTC has no open position and its one-minute strategy
  returns one LONG signal, \<^verbatim>\<open>StrategyAgent.run\<close> returns that signal twice, and the trading
  agent, when both are approved and filled, opens a trade for each.
\<close>

theorem run_emits_signal_twice:
  "run True (\<lambda>smb. None) sample_gen [''BTC'', ''ETH''] [''1m'', ''5m'']
     = Some [sample_long_signal, sample_long_signal] \<and>
   direction sample_long_signal = LONG \<and> sig_symbol sample_long_signal = ''BTC'' \<and>
   trading_agent_run (\<lambda>i. True) (\<lambda>i. True) 1 [sample_long_signal, sample_long_signal]
     = [sample_long_signal, sample_long_signal]"
  by (simp add: run_def sample_gen_def Let_def neutral_signal_def sample_long_signal_def
      entry_signal_def sample_strategy_def)

subsection \<open>Entry conditions\<close>

text \<open>
  Claim C6.  For a profile with finite POC, value area and lower second sigma,
  \<^verbatim>\<open>_check_entry_conditions\<close> returns a LONG signal exactly when the low is at or below
  the value-area low and the close lies in the value area; that signal has entry level
  \<^verbatim>\<open>2\<sigma>\<close> exactly when the low is at or below the lower second sigma, else \<^verbatim>\<open>1\<sigma>\<close>, its
  entry is the close, and its target is entry plus \<open>tp_fraction\<close> times the distance from
  entry to POC.
\<close>

theorem long_entry_conditions:
  assumes "poc prof = Fin pc" "value_area_low prof = Fin val" "value_area_high prof = Fin vah"
    and "sigma_2_low prof = Fin s2l"
  shows "((\<exists>sg. check_entry_conditions self current_price current_low current_high prev_close
                  prof atr = Inr sg \<and> direction sg = LONG)
          \<longleftrightarrow> current_low \<le> val \<and> val \<le> current_price \<and> current_price \<le> vah) \<and>
         (current_low \<le> val \<and> val \<le> current_price \<and> current_price \<le> vah \<longrightarrow>
          (\<exists>sg md. check_entry_conditions self current_price current_low current_high prev_close
                  prof atr = Inr sg \<and> direction sg = LONG \<and> metadata sg = Some md \<and>
                entry_level md = (if current_low \<le> s2l then Sigma2 else Sigma1) \<and>
                entry_price sg = Fin current_price \<and>
                target_price sg =
                  Fin (current_price + tp_fraction self * \<bar>pc - current_price\<bar>)))"
  using assms
  by (auto simp: check_entry_conditions_def Let_def f_sub_def entry_signal_def
      neutral_signal_def mult.commute split: sum.splits)


text \<open>
  The scenario of the specification: POC 45100, close 44950, low on the value-area low
  44900 and above the second sigma 44700, fraction 0.9: target 45085 at level \<^verbatim>\<open>1\<sigma>\<close>.
\<close>

theorem long_entry_conditions_witness:
  "\<exists>sg md. check_entry_conditions sample_strategy 44950 44900 44980 44940 sample_profile
              (Fin 0.3) = Inr sg \<and>
           direction sg = LONG \<and> metadata sg = Some md \<and> entry_level md = Sigma1 \<and>
           entry_price sg = Fin 44950 \<and> target_price sg = Fin 45085"
proof -
  have f: "poc sample_profile = Fin 45100" "value_area_low sample_profile = Fin 44900"
          "value_area_high sample_profile = Fin 45300" "sigma_2_low sample_profile = Fin 44700"
    by (simp_all add: sample_profile_def)
  have t: "tp_fraction sample_strategy = 0.9"
    by (simp add: sample_strategy_def)
  from long_entry_conditions [OF f, where self = sample_strategy and current_price = 44950
         and current_low = 44900 and current_high = 44980 and prev_close = 44940
         and atr = "Fin 0.3"]
  show ?thesis by (simp add: t)
qed

text \<open>When \<^verbatim>\<open>int(risk_reward * 3)\<close> returns, the ratio is finite and the result its truncation.\<close>

lemma entry_leverage_aux:
  assumes "py_int (f_mul rr (Fin 3)) = Inr n"
  shows "\<exists>r. rr = Fin r \<and> n = trunc (r * 3)"
  using assms by (cases rr) (auto simp: signed_inf_def split: if_splits)

lemma clamp_code_form: "min 20 (max 2 n) = clamp n 2 20"
  by (simp add: clamp_def)

text \<open>
  Claim C4, amended.  Every LONG or SHORT signal of \<^verbatim>\<open>_check_entry_conditions\<close> has a
  finite risk/reward ratio and leverage \<open>clamp(trunc(risk_reward \<times> 3), 2, 20)\<close>, where
  \<open>trunc\<close> is \<^verbatim>\<open>int()\<close>, truncation toward zero; the leverage lies in \<open>[2, 20]\<close>; it
  is 2 whenever the ratio is at most 0, and the ratio is 0 whenever the risk (entry less
  stop for LONG, stop less entry for SHORT) is not positive.
\<close>

theorem entry_leverage_truncates:
  assumes "check_entry_conditions self current_price current_low current_high prev_close
             prof atr = Inr sg"
    and "direction sg \<noteq> NEUTRAL"
  shows "(\<exists>r. risk_reward sg = Some (Fin r) \<and>
              leverage sg = clamp (trunc (r * 3)) 2 20 \<and>
              (r \<le> 0 \<longrightarrow> leverage sg = 2)) \<and>
         2 \<le> leverage sg \<and> leverage sg \<le> 20 \<and>
         (direction sg = LONG \<and> \<not> f_lt (Fin 0) (f_sub (entry_price sg) (sig_stop_loss sg))
            \<longrightarrow> risk_reward sg = Some (Fin 0) \<and> leverage sg = 2) \<and>
         (direction sg = SHORT \<and> \<not> f_lt (Fin 0) (f_sub (sig_stop_loss sg) (entry_price sg))
            \<longrightarrow> risk_reward sg = Some (Fin 0) \<and> leverage sg = 2)"
  using assms
  unfolding check_entry_conditions_def Let_def
  by (auto simp: entry_signal_def neutral_signal_def clamp_def trunc_def
           dest!: entry_leverage_aux split: if_splits sum.splits)


text \<open>The signal for \<open>steep_profile\<close>: ratio 1.9, so three times the ratio is 5.7.\<close>

lemma steep_entry:
  "check_entry_conditions sample_strategy 88.8 79 90 88 steep_profile (Fin 0.3) =
     Inr (entry_signal sample_strategy LONG steep_profile (Fin 0.3) 88.8 79
            (Fin 105.9) (Fin 79.8) 5 (Fin 1.9) Sigma2)"
  by (simp add: check_entry_conditions_def Let_def steep_profile_def sample_strategy_def
      f_sub_def trunc_def)

text \<open>On \<open>steep_profile\<close> the leverage is \<open>trunc 5.7 = 5\<close>.\<close>

theorem entry_leverage_truncates_witness:
  "\<exists>sg. check_entry_conditions sample_strategy 88.8 79 90 88 steep_profile (Fin 0.3) = Inr sg \<and>
        direction sg = LONG \<and> risk_reward sg = Some (Fin 1.9) \<and>
        leverage sg = clamp (trunc (1.9 * 3)) 2 20 \<and> leverage sg = 5"
proof -
  let ?sg = "entry_signal sample_strategy LONG steep_profile (Fin 0.3) 88.8 79
               (Fin 105.9) (Fin 79.8) 5 (Fin 1.9) Sigma2"
  have d: "direction ?sg \<noteq> NEUTRAL" "direction ?sg = LONG" "leverage ?sg = 5"
      "risk_reward ?sg = Some (Fin 1.9)"
    by (simp_all add: entry_signal_def)
  from entry_leverage_truncates [OF steep_entry d(1)]
  obtain r where r: "risk_reward ?sg = Some (Fin r)" "leverage ?sg = clamp (trunc (r * 3)) 2 20"
    by blast
  from r(1) d(4) have "r = 1.9" by simp
  with r(2) have "leverage ?sg = clamp (trunc (1.9 * 3)) 2 20" by simp
  with d(2,3,4) steep_entry show ?thesis by blast
qed

text \<open>
  Claim C4 as stated fails there: rounding 5.7 gives 6, the code's leverage is 5.
\<close>

theorem leverage_not_rounded:
  "(case check_entry_conditions sample_strategy 88.8 79 90 88 steep_profile (Fin 0.3) of
      Inl e \<Rightarrow> False
    | Inr sg \<Rightarrow> direction sg = LONG \<and> risk_reward sg = Some (Fin 1.9) \<and>
                leverage sg = 5 \<and> spec_leverage 1.9 = 6 \<and>
                leverage sg \<noteq> spec_leverage 1.9)"
proof -
  have "round (1.9 * 3 :: real) = 6"
    by (simp add: round_def)
  then have "spec_leverage 1.9 = 6"
    by (simp add: spec_leverage_def clamp_def)
  then show ?thesis
    unfolding steep_entry by (simp add: entry_signal_def)
qed

subsection \<open>Lookback search\<close>

text \<open>
  \<^verbatim>\<open>range(start, stop, step)\<close> lists, in ascending order, the numbers from \<open>start\<close> below
  \<open>stop\<close> that differ from \<open>start\<close> by a multiple of the step.
\<close>

lemma py_range_set:
  assumes "0 < step"
  shows "set (py_range start stop step) =
           {L. start \<le> L \<and> L < stop \<and> (L - start) mod step = 0}"
proof (intro set_eqI iffI)
  fix L
  let ?M = "stop - start + step - 1"
  assume "L \<in> set (py_range start stop step)"
  then obtain k where k0: "L = start + int k * step" "k \<in> set [0 ..< nat (?M div step)]"
    unfolding py_range_def set_map by (rule imageE)
  then have k: "L = start + int k * step" "k < nat (?M div step)" by simp_all
  from k(2) have "int k + 1 \<le> ?M div step" by linarith
  with assms have "(int k + 1) * step \<le> ?M div step * step"
    by (intro mult_right_mono) simp_all
  also have "?M div step * step \<le> ?M"
    using assms pos_mod_sign[of step ?M] div_mult_mod_eq[of ?M step] by linarith
  finally have "int k * step < stop - start" by (simp add: algebra_simps)
  moreover from assms have "0 \<le> int k * step" by simp
  moreover have "(int k * step) mod step = 0" by simp
  ultimately show "L \<in> {L. start \<le> L \<and> L < stop \<and> (L - start) mod step = 0}"
    using k(1) by simp
next
  fix L
  let ?M = "stop - start + step - 1"
  assume "L \<in> {L. start \<le> L \<and> L < stop \<and> (L - start) mod step = 0}"
  then have L: "start \<le> L" "L < stop" "(L - start) mod step = 0" by simp_all
  define k where "k = nat ((L - start) div step)"
  from L(3) have eq: "(L - start) div step * step = L - start" by auto
  from L(1) assms have nn: "0 \<le> (L - start) div step" by (simp add: pos_imp_zdiv_nonneg_iff)
  have Lk: "L = start + int k * step" using eq nn by (simp add: k_def)
  have "(L - start) + step \<le> ?M" using L(2) by simp
  then have "((L - start) + step) div step \<le> ?M div step"
    by (rule zdiv_mono1) (rule assms)
  moreover have "((L - start) + step) div step = (L - start) div step + 1"
    using assms by simp
  ultimately have "(L - start) div step < ?M div step" by simp
  then have "k < nat (?M div step)" using nn by (simp add: k_def)
  with Lk show "L \<in> set (py_range start stop step)"
    unfolding py_range_def by auto
qed

lemma py_range_sorted:
  assumes "0 < step"
  shows "sorted_wrt (<) (py_range start stop step)"
  using assms
  by (auto simp: py_range_def sorted_wrt_map sorted_wrt_iff_nth_less)

lemma py_range_lookbacks:
  "set (py_range lmin (lmax + 1) 10) = {L. lmin \<le> L \<and> L \<le> lmax \<and> (L - lmin) mod 10 = 0}"
  "sorted_wrt (<) (py_range lmin (lmax + 1) 10)"
  by (auto simp: py_range_set py_range_sorted)

lemma py_range_config: "py_range 50 121 10 = [50, 60, 70, 80, 90, 100, 110, 120]"
  by (simp add: py_range_def upt_conv_Cons)


text \<open>Each pass of the loop computes one profile, for the lookback it is given.\<close>

lemma lookback_step_calls:
  "snd (snd (snd (lookback_step lib df lb (bp, bs, opt, calls)))) = calls @ [lb]"
  by (simp add: lookback_step_def split: option.splits)

lemma lookback_loop_calls:
  "snd (snd (snd (lookback_loop lib df lbs st))) = snd (snd (snd st)) @ lbs"
proof (induction lbs arbitrary: st)
  case Nil
  then show ?case by simp
next
  case (Cons lb lbs)
  obtain bp bs opt calls where st: "st = (bp, bs, opt, calls)" by (cases st)
  show ?case
    using Cons.IH[of "lookback_step lib df lb st"] lookback_step_calls[of lib df lb bp bs opt calls]
    by (simp add: st)
qed

text \<open>
  The candidates after one more lookback, and what membership among them means: a candidate
  is developed, was computed at the lookback it records, and scores at least 70.
\<close>

lemma developed_profiles_snoc:
  "developed_profiles lib df (done @ [lb]) =
     developed_profiles lib df done @
       (case calculate_volume_profile lib df lb of
          None \<Rightarrow> []
        | Some p \<Rightarrow> if developed p then [p] else [])"
  by (simp add: developed_profiles_def List.map_filter_def split: option.splits)

lemma developed_profiles_member:
  assumes "q \<in> set (developed_profiles lib df lbs)"
  shows "developed q \<and> lookback q \<in> set lbs \<and>
         calculate_volume_profile lib df (lookback q) = Some q \<and>
         (\<exists>s. development_score q = Fin s \<and> 70 \<le> s)"
proof -
  from assms obtain lb where lb: "lb \<in> set lbs" "calculate_volume_profile lib df lb = Some q"
    and dev: "developed q"
    by (auto simp: developed_profiles_def List.map_filter_def)
  from lb(2) have "lookback q = lb"
    by (rule profile_body_fields(3)[OF calculate_volume_profile_body])
  moreover from profile_score_range[OF lb(2)] dev
  have "\<exists>s. development_score q = Fin s \<and> 70 \<le> s" by auto
  ultimately show ?thesis using lb dev by simp
qed

text \<open>
  One pass of the loop keeps \<open>search_inv\<close>, provided the lookbacks tried before are all
  smaller than the current one; hence so does the whole loop over an ascending list.
\<close>

lemma search_inv_step:
  assumes inv: "search_inv lib df done (bp, bs, opt, calls)"
    and before: "\<forall>x \<in> set done. x < lb"
  shows "search_inv lib df (done @ [lb]) (lookback_step lib df lb (bp, bs, opt, calls))"
proof (cases "calculate_volume_profile lib df lb")
  case None
  with inv show ?thesis
    by (simp add: search_inv_def lookback_step_def developed_profiles_snoc split: option.splits)
next
  case (Some p)
  show ?thesis
  proof (cases "developed p")
    case False
    with Some inv show ?thesis
      by (simp add: search_inv_def lookback_step_def developed_profiles_snoc
            split: option.splits)
  next
    case True
    from Some have lbp: "lookback p = lb"
      by (rule profile_body_fields(3)[OF calculate_volume_profile_body])
    from profile_score_range[OF Some] True
    obtain s where s: "development_score p = Fin s" "70 \<le> s" by auto
    have snoc: "developed_profiles lib df (done @ [lb]) = developed_profiles lib df done @ [p]"
      using Some True by (simp add: developed_profiles_snoc)
    show ?thesis
    proof (cases bp)
      case None
      with inv have "bs = Fin 0" "developed_profiles lib df done = []"
        by (simp_all add: search_inv_def)
      with Some True s lbp snoc None show ?thesis
        by (simp add: search_inv_def lookback_step_def best_among_def)
    next
      case bp: (Some b)
      with inv have b: "bs = development_score b" "opt = lookback b"
          "best_among (developed_profiles lib df done) b"
        by (simp_all add: search_inv_def)
      from b(3) have bmem: "b \<in> set (developed_profiles lib df done)"
        and bmax: "\<forall>q \<in> set (developed_profiles lib df done).
                     f_le (development_score q) (development_score b) \<and>
                     (development_score q = development_score b \<longrightarrow> lookback b \<le> lookback q)"
        by (simp_all add: best_among_def)
      from developed_profiles_member[OF bmem]
      obtain t where t: "development_score b = Fin t" "lookback b \<in> set done" by auto
      from t(2) before have blt: "lookback b < lb" by simp
      show ?thesis
      proof (cases "t < s")
        case less: True
        have below: "\<exists>u. development_score q = Fin u \<and> u < s"
          if "q \<in> set (developed_profiles lib df done)" for q
        proof -
          from developed_profiles_member[OF that] obtain u where u: "development_score q = Fin u"
            by auto
          from bmax that have "f_le (development_score q) (development_score b)" by simp
          with u t less show ?thesis by simp
        qed
        have "best_among (developed_profiles lib df done @ [p]) p"
          unfolding best_among_def
        proof (intro conjI ballI)
          show "p \<in> set (developed_profiles lib df done @ [p])" by simp
        next
          fix q assume "q \<in> set (developed_profiles lib df done @ [p])"
          then consider "q = p" | "q \<in> set (developed_profiles lib df done)" by auto
          then show "f_le (development_score q) (development_score p)"
          proof cases
            case 1 then show ?thesis using s by simp
          next
            case 2 with below s show ?thesis by fastforce
          qed
        next
          fix q assume "q \<in> set (developed_profiles lib df done @ [p])"
          then consider "q = p" | "q \<in> set (developed_profiles lib df done)" by auto
          then show "development_score q = development_score p \<longrightarrow> lookback p \<le> lookback q"
          proof cases
            case 1 then show ?thesis by simp
          next
            case 2 with below s show ?thesis by fastforce
          qed
        qed
        with Some True s t b less lbp snoc bp show ?thesis
          by (simp add: search_inv_def lookback_step_def)
      next
        case nless: False
        have "best_among (developed_profiles lib df done @ [p]) b"
          unfolding best_among_def
        proof (intro conjI ballI)
          show "b \<in> set (developed_profiles lib df done @ [p])" using bmem by simp
        next
          fix q assume "q \<in> set (developed_profiles lib df done @ [p])"
          then consider "q = p" | "q \<in> set (developed_profiles lib df done)" by auto
          then show "f_le (development_score q) (development_score b)"
          proof cases
            case 1 then show ?thesis using s t nless by simp
          next
            case 2 with bmax show ?thesis by simp
          qed
        next
          fix q assume "q \<in> set (developed_profiles lib df done @ [p])"
          then consider "q = p" | "q \<in> set (developed_profiles lib df done)" by auto
          then show "development_score q = development_score b \<longrightarrow> lookback b \<le> lookback q"
          proof cases
            case 1 then show ?thesis using lbp blt by simp
          next
            case 2 with bmax show ?thesis by simp
          qed
        qed
        with Some True s t b nless snoc bp show ?thesis
          by (simp add: search_inv_def lookback_step_def)
      qed
    qed
  qed
qed

lemma search_inv_loop:
  assumes "search_inv lib df done st"
    and "sorted_wrt (<) (done @ lbs)"
  shows "search_inv lib df (done @ lbs) (lookback_loop lib df lbs st)"
  using assms
proof (induction lbs arbitrary: "done" st)
  case Nil
  then show ?case by simp
next
  case (Cons lb lbs)
  obtain bp bs opt calls where st: "st = (bp, bs, opt, calls)" by (cases st)
  from Cons.prems(2) have before: "\<forall>x \<in> set done. x < lb"
    and sorted': "sorted_wrt (<) ((done @ [lb]) @ lbs)"
    by (auto simp: sorted_wrt_append)
  from Cons.prems(1) have "search_inv lib df (done @ [lb]) (lookback_step lib df lb st)"
    unfolding st by (rule search_inv_step) (rule before)
  from Cons.IH[OF this sorted'] show ?case by simp
qed

lemma lookback_search_result:
  assumes "sorted_wrt (<) lbs"
    and "lookback_loop lib df lbs (None, Fin 0, opt0, []) = (best_profile, best_score, opt, calls)"
  shows "calls = lbs"
    and "best_profile = None \<longleftrightarrow> developed_profiles lib df lbs = []"
    and "best_profile = Some p \<Longrightarrow>
           best_among (developed_profiles lib df lbs) p \<and>
           best_score = development_score p \<and> opt = lookback p"
proof -
  from lookback_loop_calls[of lib df lbs "(None, Fin 0, opt0, [])"] assms(2)
  show "calls = lbs" by simp
  have "search_inv lib df [] (None, Fin 0, opt0, [])"
    by (simp add: search_inv_def developed_profiles_def List.map_filter_def)
  from search_inv_loop[OF this, of lbs] assms
  have inv: "search_inv lib df lbs (best_profile, best_score, opt, calls)" by simp
  then show "best_profile = None \<longleftrightarrow> developed_profiles lib df lbs = []"
    by (auto simp: search_inv_def best_among_def split: option.splits)
  from inv show "best_profile = Some p \<Longrightarrow>
           best_among (developed_profiles lib df lbs) p \<and>
           best_score = development_score p \<and> opt = lookback p"
    by (simp add: search_inv_def)
qed

subsection \<open>Volatility gate\<close>

text \<open>The ATR percentage of a frame of at least 15 equal candles.\<close>

lemma tr_from_replicate:
  "tr_from (close c) (replicate n c) =
     replicate n (max (max (high c - low c) \<bar>high c - close c\<bar>) \<bar>low c - close c\<bar>)"
  by (induction n) simp_all

lemma length_true_range: "length (true_range df) = length df"
proof -
  have "length (tr_from prev cs) = length cs" for prev cs
    by (induction cs arbitrary: prev) simp_all
  then show ?thesis by (simp add: true_range_def split: list.splits)
qed

lemma calculate_atr_replicate:
  assumes "14 \<le> n"
  shows "calculate_atr (replicate (Suc n) c) =
           f_mul (f_div (Fin (max (max (high c - low c) \<bar>high c - close c\<bar>) \<bar>low c - close c\<bar>))
                        (Fin (close c))) (Fin 100)"
proof -
  let ?t = "max (max (high c - low c) \<bar>high c - close c\<bar>) \<bar>low c - close c\<bar>"
  have tr: "true_range (c # replicate n c) = (high c - low c) # replicate n ?t"
    by (simp add: true_range_def tr_from_replicate)
  from assms have "Suc n - 14 = Suc (n - 14)" by simp
  then have "tail_df 14 ((high c - low c) # replicate n ?t) = replicate 14 ?t"
    using assms by (simp add: tail_df_def)
  then have "sum_list (tail_df 14 (true_range (c # replicate n c))) / 14 = ?t"
    by (simp add: tr sum_list_replicate)
  moreover have "\<not> length (true_range (c # replicate n c)) < 14"
    using assms by (simp add: length_true_range)
  moreover have "rev (replicate (Suc n) c) = c # replicate n c"
    by (simp add: replicate_append_same)
  ultimately show ?thesis
    unfolding calculate_atr_def Let_def by simp
qed

lemma calculate_atr_flat: "calculate_atr flat_df = Fin 0"
  using calculate_atr_replicate[of 119 "\<lparr> opn = 100, high = 100, low = 100, close = 100, volume = 1 \<rparr>"]
  by (simp add: flat_df_def)

lemma calculate_atr_boundary: "calculate_atr boundary_df = Fin 0.15"
  using calculate_atr_replicate[of 119
          "\<lparr> opn = 100, high = 100.075, low = 99.925, close = 100, volume = 1 \<rparr>"]
  by (simp add: boundary_df_def)

text \<open>The gate on finite and on non-finite ATR values, and the two ways it leaves.\<close>

lemma atr_in_window_finite:
  "atr_in_window self (Fin a) \<longleftrightarrow> atr_min self \<le> a \<and> a \<le> atr_max self"
  by (simp add: atr_in_window_def)

lemma atr_in_window_nonfinite:
  "\<not> atr_in_window self NaN" "\<not> atr_in_window self PInf" "\<not> atr_in_window self NInf"
  by (simp_all add: atr_in_window_def)

lemma generate_signals_rejected:
  assumes "lookback_max self \<le> int (length df)" "\<not> atr_in_window self (calculate_atr df)"
  shows "generate_signals lib self (Inr (Some df)) =
           (Some (neutral_signal self ''ATR outside optimal range''), self, [])"
  using assms by (simp add: generate_signals_def Let_def)

lemma generate_signals_searches:
  assumes "lookback_max self \<le> int (length df)" "atr_in_window self (calculate_atr df)"
  shows "snd (snd (generate_signals lib self (Inr (Some df)))) =
           py_range (lookback_min self) (lookback_max self + 1) 10"
proof -
  let ?lbs = "py_range (lookback_min self) (lookback_max self + 1) 10"
  obtain bp bs opt calls where
    loop: "lookback_loop lib df ?lbs (None, Fin 0, optimal_lookback self, []) = (bp, bs, opt, calls)"
    by (cases "lookback_loop lib df ?lbs (None, Fin 0, optimal_lookback self, [])")
  from lookback_loop_calls[of lib df ?lbs "(None, Fin 0, optimal_lookback self, [])"] loop
  have "calls = ?lbs" by simp
  with assms loop show ?thesis
    by (simp add: generate_signals_def Let_def split: option.splits list.splits sum.splits)
qed

text \<open>
  Claim C8.  For a fetched frame of at least \<open>lookback_max\<close> candles: the gate accepts a
  finite ATR percentage exactly when it lies in the closed interval from \<open>atr_min\<close> to
  \<open>atr_max\<close>, both bounds included (for a non-empty interval); when the gate rejects,
  \<^verbatim>\<open>generate_signals\<close> returns the NEUTRAL signal "ATR outside optimal range" and no
  volume profile has been computed; when it accepts, profiles are computed for the whole
  range of lookbacks.
\<close>

theorem volatility_gate_short_circuits:
  assumes "lookback_max self \<le> int (length df)"
  shows "(\<forall>a. atr_in_window self (Fin a) \<longleftrightarrow> atr_min self \<le> a \<and> a \<le> atr_max self) \<and>
         atr_in_window self (Fin (atr_min self)) = (atr_min self \<le> atr_max self) \<and>
         atr_in_window self (Fin (atr_max self)) = (atr_min self \<le> atr_max self) \<and>
         (\<not> atr_in_window self (calculate_atr df) \<longrightarrow>
            generate_signals lib self (Inr (Some df)) =
              (Some (neutral_signal self ''ATR outside optimal range''), self, [])) \<and>
         (atr_in_window self (calculate_atr df) \<longrightarrow>
            snd (snd (generate_signals lib self (Inr (Some df)))) =
              py_range (lookback_min self) (lookback_max self + 1) 10)"
  using generate_signals_rejected[OF assms] generate_signals_searches[OF assms]
  by (auto simp: atr_in_window_finite)

text \<open>
  \<open>flat_df\<close> has an ATR of 0 and is rejected without a profile call; \<open>boundary_df\<close> has
  an ATR percentage of exactly \<open>atr_min = 0.15\<close> and is searched at 50, 60, ..., 120.
\<close>

theorem volatility_gate_short_circuits_witness:
  "generate_signals sample_lib sample_strategy (Inr (Some flat_df)) =
     (Some (neutral_signal sample_strategy ''ATR outside optimal range''), sample_strategy, []) \<and>
   calculate_atr boundary_df = Fin (atr_min sample_strategy) \<and>
   atr_in_window sample_strategy (calculate_atr boundary_df) \<and>
   snd (snd (generate_signals sample_lib sample_strategy (Inr (Some boundary_df)))) =
     [50, 60, 70, 80, 90, 100, 110, 120]"
proof -
  have len: "lookback_max sample_strategy \<le> int (length flat_df)"
       "lookback_max sample_strategy \<le> int (length boundary_df)"
    by (simp_all add: sample_strategy_def flat_df_def boundary_df_def)
  have cfg: "atr_min sample_strategy = 0.15" "atr_max sample_strategy = 0.55"
       "lookback_min sample_strategy = 50" "lookback_max sample_strategy = 120"
    by (simp_all add: sample_strategy_def)
  have out: "\<not> atr_in_window sample_strategy (calculate_atr flat_df)"
    by (simp add: calculate_atr_flat atr_in_window_finite cfg)
  have inside: "atr_in_window sample_strategy (calculate_atr boundary_df)"
    by (simp add: calculate_atr_boundary atr_in_window_finite cfg)
  from volatility_gate_short_circuits[OF len(1), of sample_lib] out
  have 1: "generate_signals sample_lib sample_strategy (Inr (Some flat_df)) =
     (Some (neutral_signal sample_strategy ''ATR outside optimal range''), sample_strategy, [])"
    by blast
  from volatility_gate_short_circuits[OF len(2), of sample_lib] inside
  have "snd (snd (generate_signals sample_lib sample_strategy (Inr (Some boundary_df)))) =
          py_range (lookback_min sample_strategy) (lookback_max sample_strategy + 1) 10"
    by blast
  then have 2: "snd (snd (generate_signals sample_lib sample_strategy (Inr (Some boundary_df)))) =
     [50, 60, 70, 80, 90, 100, 110, 120]"
    by (simp add: cfg py_range_config)
  from 1 2 inside show ?thesis by (simp add: calculate_atr_boundary cfg)
qed

subsection \<open>Leverage of returned signals\<close>

text \<open>The leverage of what \<^verbatim>\<open>_check_entry_conditions\<close> returns, by direction.\<close>

lemma check_entry_leverage_bounds:
  assumes "check_entry_conditions self current_price current_low current_high prev_close
             prof atr = Inr sg"
  shows "(direction sg = NEUTRAL \<and> leverage sg = 1) \<or>
         (direction sg \<noteq> NEUTRAL \<and> 2 \<le> leverage sg \<and> leverage sg \<le> 20)"
  using assms
  unfolding check_entry_conditions_def Let_def
  by (auto simp: entry_signal_def neutral_signal_def split: if_splits sum.splits)

lemma generate_signals_cases:
  assumes "generate_signals lib self fetched = (Some sg, self', calls)"
  shows "(\<exists>s r. sg = neutral_signal s r) \<or>
         (\<exists>s cp cl ch pcl prof atr. check_entry_conditions s cp cl ch pcl prof atr = Inr sg)"
  using assms
  unfolding generate_signals_def Let_def
  by (auto split: sum.splits option.splits if_splits prod.splits list.splits)

text \<open>
  Claim C9, amended.  Every signal that \<^verbatim>\<open>generate_signals\<close> returns has an integer
  leverage in \<open>[1, 20]\<close>: a NEUTRAL signal has leverage 1, a LONG or SHORT signal has a
  leverage in \<open>[2, 20]\<close>.
\<close>

theorem signal_leverage_range:
  assumes "generate_signals lib self fetched = (Some sg, self', calls)"
  shows "1 \<le> leverage sg \<and> leverage sg \<le> 20 \<and>
         (direction sg = NEUTRAL \<longrightarrow> leverage sg = 1) \<and>
         (direction sg \<noteq> NEUTRAL \<longrightarrow> 2 \<le> leverage sg)"
  using generate_signals_cases[OF assms] check_entry_leverage_bounds
  by (fastforce simp: neutral_signal_def)

text \<open>A run of \<^verbatim>\<open>generate_signals\<close> that ends in a LONG signal, step by step.\<close>

lemma short_df_profile:
  "calculate_volume_profile sample_lib short_df 2 =
     Some \<lparr> poc = Fin 100, value_area_high = Fin 100, value_area_low = Fin 100,
            sigma_2_high = Fin 100, sigma_2_low = Fin 100,
            mean_price = Fin 100, std_price = Fin 0,
            developed = True, development_score = Fin 87.5, lookback = 2, num_candles = 2 \<rparr>"
proof -
  have "tail_df 2 short_df =
          [\<lparr> opn = 100, high = 100.075, low = 99.925, close = 100, volume = 1 \<rparr>,
           \<lparr> opn = 100, high = 100.075, low = 99.925, close = 100, volume = 1 \<rparr>]"
    by (simp add: tail_df_def short_df_def eval_nat_numeral)
  then show ?thesis
    by (simp add: calculate_volume_profile_def short_df_def profile_body_def
      linspace_def cut_bins_def cut_label_def groupby_sum_def List.map_filter_def sum_skipna_def
      check_development_def sample_lib_def poc_drift_score_def skewness_score_def
      kurtosis_score_def va_score_def py_max0_def f_sub_def Let_def)
qed


lemma calculate_atr_short: "calculate_atr short_df = Fin 0.15"
  using calculate_atr_replicate[of 14
          "\<lparr> opn = 100, high = 100.075, low = 99.925, close = 100, volume = 1 \<rparr>"]
  by (simp add: short_df_def)

lemma generate_signals_undeveloped:
  assumes "lookback_max self \<le> int (length df)" "atr_in_window self (calculate_atr df)"
    and "lookback_loop lib df (py_range (lookback_min self) (lookback_max self + 1) 10)
           (None, Fin 0, optimal_lookback self, []) = (None, bs, opt, calls)"
  shows "generate_signals lib self (Inr (Some df)) =
           (Some (neutral_signal (self \<lparr> optimal_lookback := opt \<rparr>)
                    ''Volume profile not developed''),
            self \<lparr> optimal_lookback := opt \<rparr>, calls)"
  using assms by (simp add: generate_signals_def Let_def)

lemma generate_signals_entry:
  assumes "lookback_max self \<le> int (length df)" "atr_in_window self (calculate_atr df)"
    and "lookback_loop lib df (py_range (lookback_min self) (lookback_max self + 1) 10)
           (None, Fin 0, optimal_lookback self, []) = (Some bp, bs, opt, calls)"
    and "rev df = cur # prev # older"
    and "check_entry_conditions (self \<lparr> optimal_lookback := opt \<rparr>) (close cur) (low cur)
           (high cur) (close prev) bp (calculate_atr df) = Inr sg"
  shows "generate_signals lib self (Inr (Some df)) =
           (Some sg, self \<lparr> optimal_lookback := opt \<rparr>, calls)"
  using assms by (simp add: generate_signals_def Let_def)

lemma generate_signals_short:
  "\<exists>sg. generate_signals sample_lib short_strategy (Inr (Some short_df)) =
          (Some sg, short_strategy, [2]) \<and>
        direction sg = LONG \<and> leverage sg = 2 \<and> risk_reward sg = Some (Fin 0)"
proof -
  let ?c = "\<lparr> opn = 100, high = 100.075, low = 99.925, close = 100, volume = 1 \<rparr>"
  let ?p = "\<lparr> poc = Fin 100, value_area_high = Fin 100, value_area_low = Fin 100,
            sigma_2_high = Fin 100, sigma_2_low = Fin 100,
            mean_price = Fin 100, std_price = Fin 0,
            developed = True, development_score = Fin 87.5, lookback = 2, num_candles = 2 \<rparr>"
  let ?sg = "entry_signal short_strategy LONG ?p (Fin 0.15) 100 99.925 (Fin 100) (Fin 99.75) 2
               (Fin 0) Sigma2"
  have rv: "rev short_df = ?c # ?c # replicate 13 ?c"
    by (simp add: short_df_def eval_nat_numeral)
  have len: "lookback_max short_strategy \<le> int (length short_df)"
    by (simp add: short_df_def short_strategy_def)
  have gate: "atr_in_window short_strategy (calculate_atr short_df)"
    by (simp add: calculate_atr_short atr_in_window_def short_strategy_def)
  have self': "short_strategy \<lparr> optimal_lookback := 2 \<rparr> = short_strategy"
    by (simp add: short_strategy_def)
  have "py_range 2 3 10 = [2]" by (simp add: py_range_def)
  then have loop: "lookback_loop sample_lib short_df
           (py_range (lookback_min short_strategy) (lookback_max short_strategy + 1) 10)
           (None, Fin 0, optimal_lookback short_strategy, []) = (Some ?p, Fin 87.5, 2, [2])"
    by (simp add: lookback_step_def short_df_profile short_strategy_def)
  have entry: "check_entry_conditions (short_strategy \<lparr> optimal_lookback := 2 \<rparr>)
                 (close ?c) (low ?c) (high ?c) (close ?c) ?p (calculate_atr short_df) = Inr ?sg"
    unfolding self' calculate_atr_short
    by (simp add: check_entry_conditions_def Let_def f_sub_def trunc_def short_strategy_def)
  from generate_signals_entry[OF len gate loop rv entry]
  have "generate_signals sample_lib short_strategy (Inr (Some short_df)) =
          (Some ?sg, short_strategy, [2])"
    by (simp only: self')
  moreover have "direction ?sg = LONG" "leverage ?sg = 2" "risk_reward ?sg = Some (Fin 0)"
    by (simp_all add: entry_signal_def)
  ultimately show ?thesis by blast
qed

text \<open>
  The run on \<open>flat_df\<close> returns a NEUTRAL signal of leverage 1; the run of
  \<open>short_strategy\<close> on \<open>short_df\<close> returns a LONG signal with leverage in \<open>[2, 20]\<close>.
\<close>

theorem signal_leverage_range_witness:
  "(\<exists>sg. fst (generate_signals sample_lib sample_strategy (Inr (Some flat_df))) = Some sg \<and>
         direction sg = NEUTRAL \<and> leverage sg = 1) \<and>
   (\<exists>sg. fst (generate_signals sample_lib short_strategy (Inr (Some short_df))) = Some sg \<and>
         direction sg = LONG \<and> 2 \<le> leverage sg \<and> leverage sg \<le> 20)"
proof -
  have len: "lookback_max sample_strategy \<le> int (length flat_df)"
    by (simp add: sample_strategy_def flat_df_def)
  have out: "\<not> atr_in_window sample_strategy (calculate_atr flat_df)"
    by (simp add: calculate_atr_flat atr_in_window_finite sample_strategy_def)
  let ?n = "neutral_signal sample_strategy ''ATR outside optimal range''"
  have flat: "generate_signals sample_lib sample_strategy (Inr (Some flat_df)) =
                (Some ?n, sample_strategy, [])"
    using len out by (rule generate_signals_rejected)
  have dn: "direction ?n = NEUTRAL" by (simp add: neutral_signal_def)
  from signal_leverage_range[OF flat] dn have "leverage ?n = 1" by blast
  with flat dn have 1: "\<exists>sg. fst (generate_signals sample_lib sample_strategy
                                  (Inr (Some flat_df))) = Some sg \<and>
         direction sg = NEUTRAL \<and> leverage sg = 1"
    by simp
  from generate_signals_short obtain sg where
    sg: "generate_signals sample_lib short_strategy (Inr (Some short_df)) =
           (Some sg, short_strategy, [2])" "direction sg = LONG"
    by blast
  from signal_leverage_range[OF sg(1)] sg(2)
  have "2 \<le> leverage sg \<and> leverage sg \<le> 20" by simp
  with sg have 2: "\<exists>sg. fst (generate_signals sample_lib short_strategy
                             (Inr (Some short_df))) = Some sg \<and>
         direction sg = LONG \<and> 2 \<le> leverage sg \<and> leverage sg \<le> 20"
    by simp
  from 1 2 show ?thesis ..
qed

text \<open>
  Claim C9 as stated fails on \<open>flat_df\<close>: the signal returned is NEUTRAL and its leverage
  1 is below the minimum leverage 2.
\<close>

theorem neutral_signal_leverage_is_one:
  "(case generate_signals sample_lib sample_strategy (Inr (Some flat_df)) of
      (None, rest) \<Rightarrow> False
    | (Some sg, rest) \<Rightarrow>
        direction sg = NEUTRAL \<and> leverage sg = 1 \<and>
        \<not> (2 \<le> leverage sg \<and> leverage sg \<le> 20))"
proof -
  have len: "lookback_max sample_strategy \<le> int (length flat_df)"
    by (simp add: sample_strategy_def flat_df_def)
  have out: "\<not> atr_in_window sample_strategy (calculate_atr flat_df)"
    by (simp add: calculate_atr_flat atr_in_window_finite sample_strategy_def)
  show ?thesis
    unfolding generate_signals_rejected[OF len out]
    by (simp add: neutral_signal_def)
qed

subsection \<open>Selection of the best profile\<close>

lemma best_among_developed:
  assumes "best_among (developed_profiles lib df lbs) p"
  shows "developed p \<and> lookback p \<in> set lbs \<and>
         calculate_volume_profile lib df (lookback p) = Some p"
  using assms developed_profiles_member[of p lib df lbs]
  by (simp add: best_among_def)

text \<open>
  Claim C5.  The loop of \<^verbatim>\<open>generate_signals\<close> computes a profile for exactly the
  lookbacks \<open>lookback_min, lookback_min + 10, ...\<close> up to \<open>lookback_max\<close>, in ascending
  order.  Its result is \<^verbatim>\<open>None\<close> exactly when no computed profile is developed, and then
  (the gate having accepted) \<^verbatim>\<open>generate_signals\<close> returns the NEUTRAL signal "Volume
  profile not developed".  Otherwise the result is a developed profile, computed at the
  lookback it records, that has the highest development score of the developed profiles
  and the smallest lookback among those of that score.
\<close>

theorem lookback_search_selects_best:
  assumes "lookback_loop lib df (py_range lmin (lmax + 1) 10) (None, Fin 0, opt0, []) =
             (best_profile, best_score, opt, calls)"
  shows "calls = py_range lmin (lmax + 1) 10 \<and>
         sorted_wrt (<) calls \<and>
         set calls = {L. lmin \<le> L \<and> L \<le> lmax \<and> (L - lmin) mod 10 = 0} \<and>
         (best_profile = None \<longleftrightarrow> developed_profiles lib df calls = []) \<and>
         (\<forall>p. best_profile = Some p \<longrightarrow>
                developed p \<and> lookback p \<in> set calls \<and>
                calculate_volume_profile lib df (lookback p) = Some p \<and>
                best_among (developed_profiles lib df calls) p) \<and>
         (\<forall>self. lookback_min self = lmin \<and> lookback_max self = lmax \<and>
                 optimal_lookback self = opt0 \<and> lmax \<le> int (length df) \<and>
                 atr_in_window self (calculate_atr df) \<and> best_profile = None \<longrightarrow>
                 fst (generate_signals lib self (Inr (Some df))) =
                   Some (neutral_signal self ''Volume profile not developed''))"
proof -
  let ?lbs = "py_range lmin (lmax + 1) 10"
  have srt: "sorted_wrt (<) ?lbs" by (rule py_range_lookbacks(2))
  note res = lookback_search_result[OF srt assms]
  have c: "calls = ?lbs" by (rule res(1))
  have n: "best_profile = None \<longleftrightarrow> developed_profiles lib df calls = []"
    using res(2) c by simp
  have b: "developed p \<and> lookback p \<in> set calls \<and>
           calculate_volume_profile lib df (lookback p) = Some p \<and>
           best_among (developed_profiles lib df calls) p" if "best_profile = Some p" for p
    using res(3)[OF that] best_among_developed[of lib df ?lbs p] c by simp
  have g: "fst (generate_signals lib self (Inr (Some df))) =
             Some (neutral_signal self ''Volume profile not developed'')"
    if "lookback_min self = lmin" "lookback_max self = lmax" "optimal_lookback self = opt0"
       "lmax \<le> int (length df)" "atr_in_window self (calculate_atr df)" "best_profile = None"
    for self
  proof -
    from that assms have loop: "lookback_loop lib df
           (py_range (lookback_min self) (lookback_max self + 1) 10)
           (None, Fin 0, optimal_lookback self, []) = (None, best_score, opt, calls)"
      by simp
    from that(2,4) have len: "lookback_max self \<le> int (length df)" by simp
    from generate_signals_undeveloped[OF len that(5) loop]
    show ?thesis by (simp add: neutral_signal_def)
  qed
  have st: "set calls = {L. lmin \<le> L \<and> L \<le> lmax \<and> (L - lmin) mod 10 = 0}"
    unfolding c by (rule py_range_lookbacks(1))
  from srt have srt': "sorted_wrt (<) calls" unfolding c .
  show ?thesis
  proof (intro conjI allI impI)
    show "calls = ?lbs" by (rule c)
    show "sorted_wrt (<) calls" by (rule srt')
    show "set calls = {L. lmin \<le> L \<and> L \<le> lmax \<and> (L - lmin) mod 10 = 0}" by (rule st)
    show "best_profile = None \<longleftrightarrow> developed_profiles lib df calls = []" by (rule n)
  next
    fix p assume "best_profile = Some p"
    from b[OF this] show "developed p" "lookback p \<in> set calls"
      "calculate_volume_profile lib df (lookback p) = Some p"
      "best_among (developed_profiles lib df calls) p"
      by simp_all
  next
    fix self
    assume "lookback_min self = lmin \<and> lookback_max self = lmax \<and>
                 optimal_lookback self = opt0 \<and> lmax \<le> int (length df) \<and>
                 atr_in_window self (calculate_atr df) \<and> best_profile = None"
    then show "fst (generate_signals lib self (Inr (Some df))) =
                   Some (neutral_signal self ''Volume profile not developed'')"
      using g by blast
  qed
qed

text \<open>With a statistics library that raises, no profile is developed.\<close>

lemma failing_lib_undeveloped: "developed_profiles failing_lib df lbs = []"
proof -
  have "\<not> developed p" if "calculate_volume_profile failing_lib df lb = Some p" for p lb
  proof -
    from profile_body_fields(2)[OF calculate_volume_profile_body[OF that]]
    obtain poc_v where
      "developed p = fst (check_development failing_lib (tail_df lb df) poc_v
                            (mean_price p) (std_price p))"
      by blast
    then show ?thesis
      by (simp add: check_development_def failing_lib_def split: sum.splits)
  qed
  then show ?thesis
    by (auto simp: developed_profiles_def List.map_filter_def filter_empty_conv)
qed

lemma traded_df_profiles:
  "\<exists>p. calculate_volume_profile sample_lib traded_df 2 = Some p \<and> developed p"
  "calculate_volume_profile sample_lib traded_df 12 = None"
  by (simp_all add: calculate_volume_profile_def traded_df_def tail_df_def profile_body_def
      linspace_def cut_bins_def cut_label_def groupby_sum_def List.map_filter_def sum_skipna_def
      check_development_def sample_lib_def poc_drift_score_def skewness_score_def
      kurtosis_score_def va_score_def py_max0_def f_sub_def Let_def)

text \<open>
  On \<open>traded_df\<close> with lookbacks 2 and 12 the search tries both and returns the developed
  profile of lookback 2.  On \<open>boundary_df\<close> with the failing library the gate accepts, no
  profile is developed, and the NEUTRAL signal is returned.
\<close>

theorem lookback_search_selects_best_witness:
  "(\<exists>p. fst (lookback_loop sample_lib traded_df (py_range 2 (12 + 1) 10) (None, Fin 0, 2, []))
          = Some p \<and> developed p \<and> lookback p = 2) \<and>
   snd (snd (snd (lookback_loop sample_lib traded_df (py_range 2 (12 + 1) 10)
                    (None, Fin 0, 2, [])))) = [2, 12] \<and>
   fst (generate_signals failing_lib sample_strategy (Inr (Some boundary_df))) =
     Some (neutral_signal sample_strategy ''Volume profile not developed'')"
proof -
  have rng: "py_range 2 13 10 = [2, 12]" by (simp add: py_range_def upt_conv_Cons)
  obtain bp bs opt calls where
    loop: "lookback_loop sample_lib traded_df (py_range 2 (12 + 1) 10) (None, Fin 0, 2, []) =
             (bp, bs, opt, calls)"
    by (cases "lookback_loop sample_lib traded_df (py_range 2 (12 + 1) 10) (None, Fin 0, 2, [])")
  note t = lookback_search_selects_best[OF loop]
  from t have calls: "calls = [2, 12]" by (simp add: rng)
  from traded_df_profiles(1) obtain q where
    q: "calculate_volume_profile sample_lib traded_df 2 = Some q" "developed q" by blast
  then have "developed_profiles sample_lib traded_df calls \<noteq> []"
    by (simp add: calls developed_profiles_def List.map_filter_def)
  with t obtain p where p: "bp = Some p" by auto
  with t have pp: "developed p" "lookback p \<in> set calls"
      "calculate_volume_profile sample_lib traded_df (lookback p) = Some p"
    by blast+
  from pp(2,3) traded_df_profiles(2) have "lookback p = 2" by (auto simp: calls)
  with p pp(1) loop calls
  have 1: "(\<exists>p. fst (lookback_loop sample_lib traded_df (py_range 2 (12 + 1) 10)
                      (None, Fin 0, 2, [])) = Some p \<and> developed p \<and> lookback p = 2) \<and>
           snd (snd (snd (lookback_loop sample_lib traded_df (py_range 2 (12 + 1) 10)
                    (None, Fin 0, 2, [])))) = [2, 12]"
    by simp
  obtain bp' bs' opt' calls' where
    loop': "lookback_loop failing_lib boundary_df (py_range 50 (120 + 1) 10) (None, Fin 0, 50, []) =
             (bp', bs', opt', calls')"
    by (cases "lookback_loop failing_lib boundary_df (py_range 50 (120 + 1) 10)
                 (None, Fin 0, 50, [])")
  note t' = lookback_search_selects_best[OF loop']
  from t' failing_lib_undeveloped have none: "bp' = None" by blast
  have cfg: "lookback_min sample_strategy = 50" "lookback_max sample_strategy = 120"
      "optimal_lookback sample_strategy = 50" "120 \<le> int (length boundary_df)"
    by (simp_all add: sample_strategy_def boundary_df_def)
  have gate: "atr_in_window sample_strategy (calculate_atr boundary_df)"
    by (simp add: calculate_atr_boundary atr_in_window_finite sample_strategy_def)
  from t' cfg gate none
  have 2: "fst (generate_signals failing_lib sample_strategy (Inr (Some boundary_df))) =
     Some (neutral_signal sample_strategy ''Volume profile not developed'')"
    by blast
  from 1 2 show ?thesis by blast
qed

end
